theory Spec2Isabelle
  imports Main
begin

section \<open>Strings as the JavaScript source uses them\<close>

text \<open>
  The scripts work on ASCII text printed by git: branch names, ref names, status lines.
  A JavaScript string is modelled as a \<open>string\<close>; the three string methods the modelled
  code calls are written out below.
\<close>

definition is_space :: "char \<Rightarrow> bool" where
  "is_space c = (c = CHR '' '' \<or> c = CHR 0x09 \<or> c = CHR 0x0A \<or> c = CHR 0x0B
                 \<or> c = CHR 0x0C \<or> c = CHR 0x0D)"

text \<open>\<open>s.trim()\<close>: white space removed at both ends.\<close>

definition trim :: "string \<Rightarrow> string" where
  "trim s = rev (dropWhile is_space (rev (dropWhile is_space s)))"

text \<open>
  \<open>s.replace(pat, rep)\<close> with a string pattern: the first occurrence of \<open>pat\<close> is
  replaced, the rest of the string is kept.
\<close>

fun replace_first :: "string \<Rightarrow> string \<Rightarrow> string \<Rightarrow> string" where
  "replace_first pat rep [] = (if pat = [] then rep else [])"
| "replace_first pat rep (c # cs) =
     (if take (length pat) (c # cs) = pat then rep @ drop (length pat) (c # cs)
      else c # replace_first pat rep cs)"

text \<open>\<open>s.split('\n')\<close> and \<open>lines.join('\n')\<close>.\<close>

fun split_lines :: "string \<Rightarrow> string list" where
  "split_lines [] = [[]]"
| "split_lines (c # cs) =
     (if c = CHR 0x0A then [] # split_lines cs
      else (case split_lines cs of [] \<Rightarrow> [[c]] | l # ls \<Rightarrow> (c # l) # ls))"

fun join_lines :: "string list \<Rightarrow> string" where
  "join_lines [] = []"
| "join_lines [l] = l"
| "join_lines (l # ls) = l @ [CHR 0x0A] @ join_lines ls"

section \<open>The boundary: git, the file system, the hosting CLI, the operator\<close>

text \<open>
  \<open>utils/git.js\<close> reaches the outside through \<open>simple-git\<close>, \<open>execa('gh', ...)\<close>,
  \<open>fs/promises\<close>, \<open>inquirer\<close> and \<open>new Date()\<close>. None of these is code of the repository,
  so they are a parameter of the model: an \<open>adapter\<close> over a state of the outside world
  \<open>'w\<close>. A call that only reads has type \<open>'w \<Rightarrow> reply\<close>; a call that may change the
  world returns the new world with its reply. A promise that rejects is the reply
  \<open>Inl message\<close> (for a command without a value: \<open>Some message\<close>).
\<close>

type_synonym err = string

record status_summary =
  isClean :: bool
  current :: "string option"

record submodule =
  sm_name :: string
  sm_path :: "string option"
  sm_url :: "string option"

record pull_request =
  pr_number :: "string option"
  pr_url :: "string option"

record 'w adapter =
  fs_access :: "string \<Rightarrow> 'w \<Rightarrow> bool"
  fs_readdir :: "string \<Rightarrow> 'w \<Rightarrow> err + string list"
  gitmodules_entries :: "'w \<Rightarrow> submodule list"
  git_status :: "string \<Rightarrow> 'w \<Rightarrow> err + status_summary"
  git_symbolic_ref :: "string \<Rightarrow> 'w \<Rightarrow> err + string"
  git_branch :: "string \<Rightarrow> 'w \<Rightarrow> err + string list"
  git_branch_r :: "string \<Rightarrow> 'w \<Rightarrow> err + string list"
  git_branchLocal :: "string \<Rightarrow> 'w \<Rightarrow> err + string list"
  git_submodule_status :: "'w \<Rightarrow> err + string"
  git_ahead :: "string \<Rightarrow> string \<Rightarrow> 'w \<Rightarrow> err + nat"
  git_fetch :: "string \<Rightarrow> string \<Rightarrow> 'w \<Rightarrow> err option \<times> 'w"
  git_pull :: "string \<Rightarrow> string \<Rightarrow> string \<Rightarrow> 'w \<Rightarrow> err option \<times> 'w"
  git_pull_default :: "string \<Rightarrow> 'w \<Rightarrow> err option \<times> 'w"
  git_checkout :: "string \<Rightarrow> string \<Rightarrow> 'w \<Rightarrow> err option \<times> 'w"
  git_checkoutLocalBranch :: "string \<Rightarrow> string \<Rightarrow> 'w \<Rightarrow> err option \<times> 'w"
  git_stash_push :: "string \<Rightarrow> string \<Rightarrow> 'w \<Rightarrow> err option \<times> 'w"
  git_stash :: "string \<Rightarrow> 'w \<Rightarrow> err option \<times> 'w"
  git_submoduleInit :: "'w \<Rightarrow> err option \<times> 'w"
  git_add :: "string \<Rightarrow> string \<Rightarrow> 'w \<Rightarrow> err option \<times> 'w"
  git_commit :: "string \<Rightarrow> string \<Rightarrow> 'w \<Rightarrow> err option \<times> 'w"
  git_push :: "string \<Rightarrow> bool \<Rightarrow> string \<Rightarrow> 'w \<Rightarrow> err option \<times> 'w"
  gh_pr_list_head :: "string \<Rightarrow> string \<Rightarrow> 'w \<Rightarrow> err + string"
  gh_pr_create :: "string \<Rightarrow> string list \<Rightarrow> 'w \<Rightarrow> (err + string) \<times> 'w"
  json_parse :: "string \<Rightarrow> pull_request option"
  date_now_iso :: "'w \<Rightarrow> string"
  prompt_confirm :: "string \<Rightarrow> 'w \<Rightarrow> bool \<times> 'w"

text \<open>
  \<open>utils/git.js\<close> exports the simple-git client \<open>git\<close> beside the object \<open>gitHelpers\<close>;
  \<open>gitHelpers\<close> itself has no member \<open>git\<close>. The commands import \<open>gitHelpers\<close> only, so
  each \<open>gitHelpers.git.f(...)\<close> in them reads a property of \<open>undefined\<close> and throws a
  \<open>TypeError\<close> before anything is called: \<open>gitHelpers.git.status\<close> (twice),
  \<open>gitHelpers.git.raw\<close> and \<open>gitHelpers.git.checkoutBranch\<close>. None of the four reaches
  git, so the adapter has no entry for them; \<open>noGit f\<close> is the error thrown.
\<close>

definition noGit :: "string \<Rightarrow> err" where
  "noGit f = ''TypeError: Cannot read properties of undefined (reading '' @ [CHR 0x27] @ f
               @ [CHR 0x27] @ '')''"

text \<open>
  Every call through the adapter is recorded, with its working directory and arguments,
  in the order the script makes it.
\<close>

datatype cmd =
    FsAccess string
  | FsReaddir string
  | ReadGitmodules
  | GitStatus string
  | GitSymbolicRef string
  | GitBranch string
  | GitBranchR string
  | GitBranchLocal string
  | GitSubmoduleStatus
  | GitAhead string string
  | GitFetch string string
  | GitPull string string string
  | GitPullDefault string
  | GitCheckout string string
  | GitCheckoutLocalBranch string string
  | GitStashPush string string
  | GitStash string
  | GitSubmoduleInit
  | GitAdd string string
  | GitCommit string string
  | GitPush string bool string
  | GhPrList string string
  | GhPrCreate string "string list"
  | DateNow
  | Prompt string

text \<open>The calls that can change a repository, its remote or the hosting platform.\<close>

fun mutating :: "cmd \<Rightarrow> bool" where
  "mutating (GitFetch _ _) = True"
| "mutating (GitPull _ _ _) = True"
| "mutating (GitPullDefault _) = True"
| "mutating (GitCheckout _ _) = True"
| "mutating (GitCheckoutLocalBranch _ _) = True"
| "mutating (GitStashPush _ _) = True"
| "mutating (GitStash _) = True"
| "mutating GitSubmoduleInit = True"
| "mutating (GitAdd _ _) = True"
| "mutating (GitCommit _ _) = True"
| "mutating (GitPush _ _ _) = True"
| "mutating (GhPrCreate _ _) = True"
| "mutating _ = False"

text \<open>Console output: which \<open>log\<close> or spinner function printed, and the message.\<close>

datatype level =
    Section | Item | Info | Warning | Error | Success
  | SpinStart | SpinSucceed | SpinFail | Print

record 'w st =
  world :: 'w
  trace :: "cmd list"
  out :: "(level \<times> string) list"

definition init :: "'w \<Rightarrow> 'w st" where
  "init w = \<lparr>world = w, trace = [], out = []\<rparr>"

definition emit :: "level \<Rightarrow> string \<Rightarrow> 'w st \<Rightarrow> 'w st" where
  "emit l m s = s\<lparr>out := out s @ [(l, m)]\<rparr>"

definition emits :: "(level \<times> string) list \<Rightarrow> 'w st \<Rightarrow> 'w st" where
  "emits ls s = s\<lparr>out := out s @ ls\<rparr>"

definition query :: "cmd \<Rightarrow> ('w \<Rightarrow> 'a) \<Rightarrow> 'w st \<Rightarrow> 'a \<times> 'w st" where
  "query c f s = (f (world s), s\<lparr>trace := trace s @ [c]\<rparr>)"

definition exec :: "cmd \<Rightarrow> ('w \<Rightarrow> 'a \<times> 'w) \<Rightarrow> 'w st \<Rightarrow> 'a \<times> 'w st" where
  "exec c f s = (case f (world s) of (r, w') \<Rightarrow> (r, s\<lparr>world := w', trace := trace s @ [c]\<rparr>))"

section \<open>gitHelpers\<close>

text \<open>\<open>getCurrentBranch\<close>: \<open>status.current || null\<close>; an empty name is falsy.\<close>

definition getCurrentBranch :: "'w adapter \<Rightarrow> string \<Rightarrow> 'w st \<Rightarrow> (err + string option) \<times> 'w st" where
  "getCurrentBranch G dir s =
     (case query (GitStatus dir) (git_status G dir) s of
        (Inl e, s') \<Rightarrow> (Inl e, s')
      | (Inr status, s') \<Rightarrow>
          (Inr (case current status of None \<Rightarrow> None
                | Some b \<Rightarrow> if b = [] then None else Some b), s'))"

text \<open>
  \<open>getDefaultBranch\<close>: the symbolic ref of \<open>origin/HEAD\<close> with its prefix removed; when
  that command fails, the branch list decides between \<open>main\<close> and \<open>master\<close>. The branch
  listing sits in the \<open>catch\<close> block, so its own failure leaves the function.
\<close>

definition getDefaultBranch :: "'w adapter \<Rightarrow> string \<Rightarrow> 'w st \<Rightarrow> (err + string) \<times> 'w st" where
  "getDefaultBranch G dir s =
     (case query (GitSymbolicRef dir) (git_symbolic_ref G dir) s of
        (Inr result, s') \<Rightarrow> (Inr (replace_first ''refs/remotes/origin/'' [] (trim result)), s')
      | (Inl _, s') \<Rightarrow>
          (case query (GitBranch dir) (git_branch G dir) s' of
             (Inl e, s'') \<Rightarrow> (Inl e, s'')
           | (Inr branches_all, s'') \<Rightarrow>
               (Inr (if ''origin/main'' \<in> set branches_all then ''main''
                     else if ''origin/master'' \<in> set branches_all then ''master''
                     else ''main''), s'')))"

text \<open>\<open>hasUncommittedChanges\<close>: \<open>!status.isClean()\<close>.\<close>

definition hasUncommittedChanges :: "'w adapter \<Rightarrow> string \<Rightarrow> 'w st \<Rightarrow> (err + bool) \<times> 'w st" where
  "hasUncommittedChanges G dir s =
     (case query (GitStatus dir) (git_status G dir) s of
        (Inl e, s') \<Rightarrow> (Inl e, s')
      | (Inr status, s') \<Rightarrow> (Inr (\<not> isClean status), s'))"

text \<open>\<open>isGitRepo\<close>: whether \<open>status()\<close> resolves.\<close>

definition isGitRepo :: "'w adapter \<Rightarrow> string \<Rightarrow> 'w st \<Rightarrow> bool \<times> 'w st" where
  "isGitRepo G dir s =
     (case query (GitStatus dir) (git_status G dir) s of
        (Inl _, s') \<Rightarrow> (False, s')
      | (Inr _, s') \<Rightarrow> (True, s'))"

text \<open>\<open>isSubmodule\<close>: whether \<open>dir/.git\<close> can be accessed.\<close>

definition isSubmodule :: "'w adapter \<Rightarrow> string \<Rightarrow> 'w st \<Rightarrow> bool \<times> 'w st" where
  "isSubmodule G dir s = query (FsAccess (dir @ ''/.git'')) (fs_access G (dir @ ''/.git'')) s"

text \<open>
  \<open>getSubmodules\<close> reads \<open>.gitmodules\<close> line by line into \<open>{name, path, url}\<close> entries
  and returns \<open>[]\<close> when the file cannot be read. The entries it builds are taken from
  the adapter; a section without a \<open>path =\<close> line has no path.
\<close>

definition getSubmodules :: "'w adapter \<Rightarrow> 'w st \<Rightarrow> submodule list \<times> 'w st" where
  "getSubmodules G s = query ReadGitmodules (gitmodules_entries G) s"

definition fetch :: "'w adapter \<Rightarrow> string \<Rightarrow> string \<Rightarrow> 'w st \<Rightarrow> err option \<times> 'w st" where
  "fetch G dir remote s = exec (GitFetch dir remote) (git_fetch G dir remote) s"

text \<open>\<open>pull(dir, remote, branch)\<close>: with a truthy branch \<open>pull(remote, branch)\<close>, else \<open>pull()\<close>.\<close>

definition pull :: "'w adapter \<Rightarrow> string \<Rightarrow> string \<Rightarrow> string \<Rightarrow> 'w st \<Rightarrow> err option \<times> 'w st" where
  "pull G dir remote branch s =
     (if branch \<noteq> [] then exec (GitPull dir remote branch) (git_pull G dir remote branch) s
      else exec (GitPullDefault dir) (git_pull_default G dir) s)"

definition createBranch :: "'w adapter \<Rightarrow> string \<Rightarrow> string \<Rightarrow> 'w st \<Rightarrow> err option \<times> 'w st" where
  "createBranch G branchName dir s =
     exec (GitCheckoutLocalBranch dir branchName) (git_checkoutLocalBranch G dir branchName) s"

definition checkout :: "'w adapter \<Rightarrow> string \<Rightarrow> string \<Rightarrow> 'w st \<Rightarrow> err option \<times> 'w st" where
  "checkout G branch dir s = exec (GitCheckout dir branch) (git_checkout G dir branch) s"

text \<open>
  \<open>push(dir, setUpstream, branch)\<close>: the branch given, else the current one; then
  \<open>push(['-u', 'origin', b])\<close> or \<open>push('origin', b)\<close>. A detached repository makes
  the pushed name \<open>null\<close>, written \<open>''null''\<close> here.
\<close>

definition push :: "'w adapter \<Rightarrow> string \<Rightarrow> bool \<Rightarrow> string option \<Rightarrow> 'w st \<Rightarrow> err option \<times> 'w st" where
  "push G dir setUpstream branch s =
     (case (case branch of
              Some b \<Rightarrow> if b \<noteq> [] then (Inr (Some b), s) else getCurrentBranch G dir s
            | None \<Rightarrow> getCurrentBranch G dir s) of
        (Inl e, s') \<Rightarrow> (Some e, s')
      | (Inr currentBranch, s') \<Rightarrow>
          (let b = (case currentBranch of None \<Rightarrow> ''null'' | Some b \<Rightarrow> b)
           in exec (GitPush dir setUpstream b) (git_push G dir setUpstream b) s'))"

definition add :: "'w adapter \<Rightarrow> string \<Rightarrow> string \<Rightarrow> 'w st \<Rightarrow> err option \<times> 'w st" where
  "add G files dir s = exec (GitAdd dir files) (git_add G dir files) s"

definition commit :: "'w adapter \<Rightarrow> string \<Rightarrow> string \<Rightarrow> 'w st \<Rightarrow> err option \<times> 'w st" where
  "commit G message dir s = exec (GitCommit dir message) (git_commit G dir message) s"

text \<open>\<open>getRemoteBranches\<close>: \<open>branch(['-r'])\<close>, each name with its first \<open>origin/\<close> removed.\<close>

definition getRemoteBranches :: "'w adapter \<Rightarrow> string \<Rightarrow> 'w st \<Rightarrow> (err + string list) \<times> 'w st" where
  "getRemoteBranches G dir s =
     (case query (GitBranchR dir) (git_branch_r G dir) s of
        (Inl e, s') \<Rightarrow> (Inl e, s')
      | (Inr branches_all, s') \<Rightarrow> (Inr (map (replace_first ''origin/'' []) branches_all), s'))"

definition getLocalBranches :: "'w adapter \<Rightarrow> string \<Rightarrow> 'w st \<Rightarrow> (err + string list) \<times> 'w st" where
  "getLocalBranches G dir s = query (GitBranchLocal dir) (git_branchLocal G dir) s"

definition branchExists :: "'w adapter \<Rightarrow> string \<Rightarrow> string \<Rightarrow> 'w st \<Rightarrow> (err + bool) \<times> 'w st" where
  "branchExists G branchName dir s =
     (case getLocalBranches G dir s of
        (Inl e, s') \<Rightarrow> (Inl e, s')
      | (Inr branches, s') \<Rightarrow> (Inr (branchName \<in> set branches), s'))"

definition remoteBranchExists :: "'w adapter \<Rightarrow> string \<Rightarrow> string \<Rightarrow> 'w st \<Rightarrow> (err + bool) \<times> 'w st" where
  "remoteBranchExists G branchName dir s =
     (case getRemoteBranches G dir s of
        (Inl e, s') \<Rightarrow> (Inl e, s')
      | (Inr branches, s') \<Rightarrow> (Inr (branchName \<in> set branches), s'))"

text \<open>\<open>stash(message, dir)\<close>: with a message \<open>stash(['push', '-m', message])\<close>, else \<open>stash()\<close>.\<close>

definition stash :: "'w adapter \<Rightarrow> string \<Rightarrow> string \<Rightarrow> 'w st \<Rightarrow> err option \<times> 'w st" where
  "stash G message dir s =
     (if message \<noteq> [] then exec (GitStashPush dir message) (git_stash_push G dir message) s
      else exec (GitStash dir) (git_stash G dir) s)"

definition initSubmodules :: "'w adapter \<Rightarrow> 'w st \<Rightarrow> err option \<times> 'w st" where
  "initSubmodules G s = exec GitSubmoduleInit (git_submoduleInit G) s"

text \<open>
  \<open>getSubmoduleStatus\<close>: the output of \<open>git submodule status\<close>, split at newlines, the
  lines that are blank after trimming dropped.
\<close>

definition getSubmoduleStatus :: "'w adapter \<Rightarrow> 'w st \<Rightarrow> (err + string list) \<times> 'w st" where
  "getSubmoduleStatus G s =
     (case query GitSubmoduleStatus (git_submodule_status G) s of
        (Inl e, s') \<Rightarrow> (Inl e, s')
      | (Inr result, s') \<Rightarrow> (Inr (filter (\<lambda>line. trim line \<noteq> []) (split_lines result)), s'))"

section \<open>githubHelpers\<close>

text \<open>
  The two regular expressions of \<open>createPR\<close>. \<open>/#(\d+)/\<close>: the digits after the first
  \<open>#\<close> that has a digit behind it. \<open>/https:\/\/[^\s]+/\<close>: from the first \<open>https://\<close> that
  has a character other than white space behind it, up to the next white space.
\<close>

definition is_digit :: "char \<Rightarrow> bool" where
  "is_digit c = (c \<in> set ''0123456789'')"

fun match_number :: "string \<Rightarrow> string option" where
  "match_number [] = None"
| "match_number (c # cs) =
     (if c = CHR ''#'' \<and> takeWhile is_digit cs \<noteq> [] then Some (takeWhile is_digit cs)
      else match_number cs)"

fun match_url :: "string \<Rightarrow> string option" where
  "match_url [] = None"
| "match_url (c # cs) =
     (if take 8 (c # cs) = ''https://'' \<and> takeWhile (\<lambda>x. \<not> is_space x) (drop 8 (c # cs)) \<noteq> []
      then Some (''https://'' @ takeWhile (\<lambda>x. \<not> is_space x) (drop 8 (c # cs)))
      else match_url cs)"

text \<open>
  \<open>createPR\<close>: \<open>gh pr create --title t --body b\<close>, with \<open>--base\<close> for a truthy base and
  \<open>--draft\<close> on request; the number and the URL are read from what \<open>gh\<close> prints.
\<close>

definition createPR :: "'w adapter \<Rightarrow> string \<Rightarrow> string \<Rightarrow> string option \<Rightarrow> bool \<Rightarrow> string
    \<Rightarrow> 'w st \<Rightarrow> (err + pull_request) \<times> 'w st" where
  "createPR G title body base draft dir s =
     (let args = [''pr'', ''create'', ''--title'', title, ''--body'', body]
                   @ (case base of None \<Rightarrow> [] | Some b \<Rightarrow> if b \<noteq> [] then [''--base'', b] else [])
                   @ (if draft then [''--draft''] else [])
      in case exec (GhPrCreate dir args) (gh_pr_create G dir args) s of
           (Inl e, s') \<Rightarrow> (Inl e, s')
         | (Inr stdout, s') \<Rightarrow>
             (Inr \<lparr>pr_number = match_number stdout, pr_url = match_url stdout\<rparr>, s'))"

text \<open>
  \<open>getPRForBranch\<close>: \<open>gh pr list --head branch --json number,url --jq '.[0]'\<close>; output
  that is not empty goes through \<open>JSON.parse\<close>; no output, a failing command and a
  failing parse all give \<open>null\<close>. \<open>JSON.parse\<close> is the adapter's \<open>json_parse\<close>, \<open>None\<close> where
  it throws or yields \<open>null\<close>.
\<close>

definition getPRForBranch :: "'w adapter \<Rightarrow> string \<Rightarrow> string \<Rightarrow> 'w st \<Rightarrow> pull_request option \<times> 'w st" where
  "getPRForBranch G branch dir s =
     (case query (GhPrList dir branch) (gh_pr_list_head G dir branch) s of
        (Inl _, s') \<Rightarrow> (None, s')
      | (Inr stdout, s') \<Rightarrow> (if stdout \<noteq> [] then json_parse G stdout else None, s'))"

section \<open>commands/sync-submodules.js\<close>

text \<open>
  An \<open>async\<close> function returns \<open>Inr v\<close> when it returns \<open>v\<close> and \<open>Inl e\<close> when an
  awaited call outside every \<open>try\<close> rejects with \<open>e\<close>. \<open>syncSubmodule\<close> is written in
  three parts, in the order of its text: the detached branch of its last \<open>if\<close>
  (\<open>syncDetached\<close>), everything from \<open>// Get current branch\<close> on (\<open>syncBranch\<close>), and the
  function itself, which ends in \<open>syncBranch\<close> unless it has returned before.
\<close>

definition syncDetached :: "'w adapter \<Rightarrow> string \<Rightarrow> string \<Rightarrow> 'w st \<Rightarrow> (err + bool) \<times> 'w st" where
  "syncDetached G submodulePath submoduleName s =
     (case getDefaultBranch G submodulePath s of
        (Inl e, s1) \<Rightarrow> (Inl e, s1)
      | (Inr defaultBranch, s1) \<Rightarrow>
          (let s2 = emit SpinStart (''Checking out '' @ defaultBranch @ ''...'') s1
           in case checkout G defaultBranch submodulePath s2 of
                (Some _, s3) \<Rightarrow>
                  (Inr False, emit SpinFail (''Failed to checkout '' @ defaultBranch) s3)
              | (None, s3) \<Rightarrow>
                  (case pull G submodulePath ''origin'' defaultBranch s3 of
                     (Some _, s4) \<Rightarrow>
                       (Inr False, emit SpinFail (''Failed to checkout '' @ defaultBranch) s4)
                   | (None, s4) \<Rightarrow>
                       (Inr True,
                        emit Success (''Successfully synced '' @ submoduleName)
                          (emit SpinSucceed (''Checked out and pulled '' @ defaultBranch) s4)))))"

definition syncBranch :: "'w adapter \<Rightarrow> string \<Rightarrow> string \<Rightarrow> 'w st \<Rightarrow> (err + bool) \<times> 'w st" where
  "syncBranch G submodulePath submoduleName s =
     (case getCurrentBranch G submodulePath s of
        (Inl e, s1) \<Rightarrow> (Inl e, s1)
      | (Inr currentBranch, s1) \<Rightarrow>
          (let s2 = emit Item (''Current branch: '' @
                      (case currentBranch of None \<Rightarrow> ''detached'' | Some b \<Rightarrow> b)) s1;
               s3 = emit SpinStart ''Fetching latest changes...'' s2
           in case fetch G submodulePath ''origin'' s3 of
                (Some _, s4) \<Rightarrow> (Inr False, emit SpinFail ''Failed to fetch changes'' s4)
              | (None, s4) \<Rightarrow>
                  (let s5 = emit SpinSucceed ''Fetched latest changes'' s4
                   in case currentBranch of
                        None \<Rightarrow> syncDetached G submodulePath submoduleName s5
                      | Some b \<Rightarrow>
                          if b = ''HEAD'' then syncDetached G submodulePath submoduleName s5
                          else
                            (let s6 = emit SpinStart (''Pulling latest from '' @ b @ ''...'') s5
                             in case pull G submodulePath ''origin'' b s6 of
                                  (Some _, s7) \<Rightarrow>
                                    (Inr False, emit SpinFail (''Failed to pull from '' @ b) s7)
                                | (None, s7) \<Rightarrow>
                                    (Inr True,
                                     emit Success (''Successfully synced '' @ submoduleName)
                                       (emit SpinSucceed (''Pulled latest from '' @ b) s7))))))"

definition syncSubmodule :: "'w adapter \<Rightarrow> string \<Rightarrow> string \<Rightarrow> bool \<Rightarrow> 'w st \<Rightarrow> (err + bool) \<times> 'w st" where
  "syncSubmodule G submodulePath submoduleName forceUpdate s =
     (let s1 = emit Item (''Path: '' @ submodulePath)
                 (emit Section (''Syncing submodule: '' @ submoduleName) s)
      in case query (FsAccess submodulePath) (fs_access G submodulePath) s1 of
           (False, s2) \<Rightarrow>
             (Inr False, emit Error (''Submodule directory not found: '' @ submodulePath) s2)
         | (True, s2) \<Rightarrow>
             (case hasUncommittedChanges G submodulePath s2 of
                (Inl e, s3) \<Rightarrow> (Inl e, s3)
              | (Inr hasChanges, s3) \<Rightarrow>
                  if hasChanges then
                    (let s4 = emit Warning (''Uncommitted changes detected in '' @ submoduleName) s3
                     in if \<not> forceUpdate then
                          (Inr False,
                           emit Warning (''Skipping '' @ submoduleName @ ''...'')
                             (emit Warning ''Use --force to sync anyway, or commit your changes first'' s4))
                        else
                          (let s5 = emit SpinStart ''Force update enabled, stashing changes...'' s4
                           in case query DateNow (date_now_iso G) s5 of
                                (now, s6) \<Rightarrow>
                                  (case stash G (''Auto-stash before sync '' @ now) submodulePath s6 of
                                     (Some _, s7) \<Rightarrow>
                                       (Inr False, emit SpinFail ''Failed to stash changes'' s7)
                                   | (None, s7) \<Rightarrow>
                                       syncBranch G submodulePath submoduleName
                                         (emit SpinSucceed ''Changes stashed'' s7))))
                  else syncBranch G submodulePath submoduleName s3))"

text \<open>
  The entries of \<open>results\<close>. An entry of \<open>.gitmodules\<close> without a path gives
  \<open>syncSubmodule\<close> the path \<open>undefined\<close>, which \<open>fs.access\<close> rejects: the function logs the
  error and returns \<open>false\<close>.
\<close>

record sync_result =
  res_name :: string
  res_path :: "string option"
  success :: bool

definition syncEntry :: "'w adapter \<Rightarrow> submodule \<Rightarrow> bool \<Rightarrow> 'w st \<Rightarrow> (err + bool) \<times> 'w st" where
  "syncEntry G submodule force s =
     (case sm_path submodule of
        Some p \<Rightarrow> syncSubmodule G p (sm_name submodule) force s
      | None \<Rightarrow>
          (Inr False,
           emit Error ''Submodule directory not found: undefined''
             (emit Item ''Path: undefined''
               (emit Section (''Syncing submodule: '' @ sm_name submodule) s))))"

text \<open>The loop \<open>for (const submodule of submodules)\<close>, pushing one entry per iteration.\<close>

fun syncEach :: "'w adapter \<Rightarrow> bool \<Rightarrow> submodule list \<Rightarrow> sync_result list \<Rightarrow> 'w st
    \<Rightarrow> (err + sync_result list) \<times> 'w st" where
  "syncEach G force [] results s = (Inr results, s)"
| "syncEach G force (submodule # rest) results s =
     (case syncEntry G submodule force s of
        (Inl e, s') \<Rightarrow> (Inl e, s')
      | (Inr ok, s') \<Rightarrow>
          syncEach G force rest
            (results @ [\<lparr>res_name = sm_name submodule, res_path = sm_path submodule, success = ok\<rparr>]) s')"

text \<open>
  The \<open>try\<close> block that updates the parent repository. \<open>git add .\<close> comes first. When the
  parent then has changes, the next statement is \<open>gitHelpers.git.status(['--short'])\<close>,
  which throws; the \<open>catch\<close> of the block logs the failure. The prompt, the commit
  message built from \<open>getSubmoduleStatus\<close> and the commit stand after that statement in
  the block and are never reached.
\<close>

definition parentFailed :: "err \<Rightarrow> 'w st \<Rightarrow> 'w st" where
  "parentFailed e s = emit Print e (emit Error ''Failed to update parent repo'' s)"

definition updateParent :: "'w adapter \<Rightarrow> 'w st \<Rightarrow> 'w st" where
  "updateParent G s =
     (case add G ''.'' ''.'' s of
        (Some e, s1) \<Rightarrow> parentFailed e s1
      | (None, s1) \<Rightarrow>
          (case hasUncommittedChanges G ''.'' s1 of
             (Inl e, s2) \<Rightarrow> parentFailed e s2
           | (Inr hasChanges, s2) \<Rightarrow>
               if hasChanges then
                 parentFailed (noGit ''status'') (emit Info ''Changes detected in parent repo:'' s2)
               else emit Success ''No submodule reference updates needed'' s2))"

text \<open>
  The summary: one line per entry of \<open>results\<close>, \<open>icons.check\<close> and the name, or
  \<open>icons.cross\<close>, the name and \<open>(failed)\<close>. The two icons are written in ASCII.
\<close>

definition icon_check :: string where "icon_check = ''[check]''"
definition icon_cross :: string where "icon_cross = ''[cross]''"

definition summaryLine :: "sync_result \<Rightarrow> level \<times> string" where
  "summaryLine result =
     (if success result then (Item, icon_check @ '' '' @ res_name result)
      else (Item, icon_cross @ '' '' @ res_name result @ '' (failed)''))"

definition showSummary :: "sync_result list \<Rightarrow> 'w st \<Rightarrow> 'w st" where
  "showSummary results s = emits (map summaryLine results) (emit Section ''Summary'' s)"

text \<open>The closing \<open>try\<close> block that prints \<open>git submodule status\<close>; its errors are ignored.\<close>

definition showStatus :: "'w adapter \<Rightarrow> 'w st \<Rightarrow> 'w st" where
  "showStatus G s =
     (case getSubmoduleStatus G s of
        (Inl _, s1) \<Rightarrow> s1
      | (Inr status, s1) \<Rightarrow>
          emits (map (\<lambda>line. (Print, ''  '' @ line)) status)
            (emit Info ''Current submodule status:'' (emit Print [] s1)))"

definition nextSteps :: "(level \<times> string) list" where
  "nextSteps =
     [(Success, ''Submodule sync complete!''),
      (Section, ''Next Steps''),
      (Item, ''If you made changes, push to parent repo: git push origin main''),
      (Item, ''To start a new feature: npm run new-feature <service> <feature>'')]"

text \<open>
  How a run of \<open>syncSubmodules\<close> ends: \<open>process.exit(1)\<close>, an uncaught rejection, the early
  \<open>return\<close> for an empty registry, or the end of the function. The JavaScript function
  returns nothing; the model hands back the \<open>results\<close> array it built, so that
  statements can refer to it.
\<close>

datatype sync_end =
    Exited nat
  | Rejected err
  | NoSubmodules
  | Completed "sync_result list"

text \<open>
  \<open>syncSubmodules\<close> in three parts. \<open>syncSetup\<close> is its pair of \<open>try\<close> blocks: the first
  would run \<open>git submodule sync\<close> through \<open>gitHelpers.git.raw\<close>, which throws, so its
  \<open>catch\<close> reports the failure and prints the error; the second initialises the
  submodules, reporting a failure and going on. \<open>syncFinish\<close> is everything after the
  loop.
\<close>

definition syncSetup :: "'w adapter \<Rightarrow> 'w st \<Rightarrow> 'w st" where
  "syncSetup G s =
     (let s1 = emit SpinStart ''Syncing submodule configuration...''
                 (emit Section ''Syncing submodule URLs'' s);
          s2 = emit Print (noGit ''raw'') (emit SpinFail ''Failed to sync submodule URLs'' s1);
          s3 = emit SpinStart ''Initializing submodules...'' s2
      in case initSubmodules G s3 of
           (None, t) \<Rightarrow> emit SpinSucceed ''Initialized submodules'' t
         | (Some e, t) \<Rightarrow> emit Print e (emit SpinFail ''Failed to initialize submodules'' t))"

definition syncFinish :: "'w adapter \<Rightarrow> sync_result list \<Rightarrow> 'w st \<Rightarrow> 'w st" where
  "syncFinish G results s =
     emits nextSteps
       (showStatus G
         (showSummary results
           (updateParent G (emit Section ''Updating submodule references in parent repo'' s))))"

definition syncSubmodules :: "'w adapter \<Rightarrow> bool \<Rightarrow> 'w st \<Rightarrow> sync_end \<times> 'w st" where
  "syncSubmodules G force s =
     (let s1 = emit Print (replicate 30 (CHR ''='')) (emit Print ''Syncing Git Submodules'' s);
          s2 = (if force then emit Warning ''Force update enabled - will stash uncommitted changes'' s1
                else s1)
      in case query (FsAccess ''.gitmodules'') (fs_access G ''.gitmodules'') s2 of
           (False, s3) \<Rightarrow>
             (Exited 1, emit Error ''.gitmodules not found. Please run from project root.'' s3)
         | (True, s3) \<Rightarrow>
             (case getSubmodules G (syncSetup G s3) of
                (submodules, s4) \<Rightarrow>
                  if submodules = [] then (NoSubmodules, emit Warning ''No submodules found'' s4)
                  else
                    (case syncEach G force submodules [] s4 of
                       (Inl e, s5) \<Rightarrow> (Rejected e, s5)
                     | (Inr results, s5) \<Rightarrow> (Completed results, syncFinish G results s5))))"

text \<open>
  A state in which the last call made was a \<open>status\<close> query or a branch listing, and
  that call failed with \<open>e\<close>.
\<close>

definition query_rejected :: "'w adapter \<Rightarrow> err \<Rightarrow> 'w st \<Rightarrow> bool" where
  "query_rejected G e s =
     (trace s \<noteq> [] \<and>
      (case last (trace s) of
         GitStatus dir \<Rightarrow> git_status G dir (world s) = Inl e
       | GitBranch dir \<Rightarrow> git_branch G dir (world s) = Inl e
       | _ \<Rightarrow> False))"

text \<open>
  What it is for the loop to have gone through \<open>submodules\<close> from state \<open>s\<close> to state \<open>t\<close>
  with \<open>results\<close>: the two lists run in step; each submodule is handed to \<open>syncEntry\<close> in
  the state its predecessor left, \<open>syncEntry\<close> returns there, and the entry of the
  submodule holds its name, its path and the boolean returned.
\<close>

fun processed :: "'w adapter \<Rightarrow> bool \<Rightarrow> submodule list \<Rightarrow> sync_result list \<Rightarrow> 'w st \<Rightarrow> 'w st
    \<Rightarrow> bool" where
  "processed G force [] [] s t = (t = s)"
| "processed G force (submodule # rest) (result # results) s t =
     (case syncEntry G submodule force s of
        (Inl _, _) \<Rightarrow> False
      | (Inr ok, s') \<Rightarrow>
          result = \<lparr>res_name = sm_name submodule, res_path = sm_path submodule, success = ok\<rparr>
          \<and> processed G force rest results s' t)"
| "processed G force [] (result # results) s t = False"
| "processed G force (submodule # rest) [] s t = False"

section \<open>commands/new-feature.js\<close>

text \<open>
  \<open>getAvailableServices\<close>: the entries of \<open>services/\<close> that hold a \<open>.git\<close>; \<open>[]\<close> when the
  directory cannot be read. \<open>path.join('services', name)\<close> is written \<open>services/name\<close>.
\<close>

definition servicePathOf :: "string \<Rightarrow> string" where
  "servicePathOf serviceName = ''services/'' @ serviceName"

fun keepSubmodules :: "'w adapter \<Rightarrow> string list \<Rightarrow> string list \<Rightarrow> 'w st \<Rightarrow> string list \<times> 'w st" where
  "keepSubmodules G [] services s = (services, s)"
| "keepSubmodules G (service # rest) services s =
     (case isSubmodule G (servicePathOf service) s of
        (True, s') \<Rightarrow> keepSubmodules G rest (services @ [service]) s'
      | (False, s') \<Rightarrow> keepSubmodules G rest services s')"

definition getAvailableServices :: "'w adapter \<Rightarrow> 'w st \<Rightarrow> string list \<times> 'w st" where
  "getAvailableServices G s =
     (case query (FsReaddir ''services'') (fs_readdir G ''services'') s of
        (Inl _, s') \<Rightarrow> ([], s')
      | (Inr servicesDir, s') \<Rightarrow> keepSubmodules G servicesDir [] s')"

definition listServices :: "string list \<Rightarrow> 'w st \<Rightarrow> 'w st" where
  "listServices availableServices s =
     (if availableServices \<noteq> [] then
        emits (map (\<lambda>service. (Item, service)) availableServices)
          (emit Info ''Available services:'' s)
      else s)"

text \<open>
  \<open>createFeatureBranch\<close> in two parts. \<open>openFeatureBranch\<close> is its text from
  \<open>// Check if feature branch already exists\<close> to the end: the two existence queries and
  the three-way \<open>if\<close>. In its middle branch, for a branch that exists on the remote only,
  the \<open>try\<close> block calls \<open>gitHelpers.git.checkoutBranch\<close>, which throws; the \<open>catch\<close>
  reports the failure and returns \<open>false\<close>. The lines of advice printed after a success
  are fixed text and are left out.
\<close>

definition featureBranchOf :: "string \<Rightarrow> string" where
  "featureBranchOf featureName = ''feature/'' @ featureName"

definition featureReady :: "'w st \<Rightarrow> 'w st" where
  "featureReady s = emit Success ''Feature branch setup complete!'' s"

definition openFeatureBranch :: "'w adapter \<Rightarrow> string \<Rightarrow> string \<Rightarrow> 'w st \<Rightarrow> (err + bool) \<times> 'w st" where
  "openFeatureBranch G servicePath featureBranch s =
     (case branchExists G featureBranch servicePath s of
        (Inl e, s1) \<Rightarrow> (Inl e, s1)
      | (Inr localExists, s1) \<Rightarrow>
          (case remoteBranchExists G featureBranch servicePath s1 of
             (Inl e, s2) \<Rightarrow> (Inl e, s2)
           | (Inr remoteExists, s2) \<Rightarrow>
               if localExists then
                 (case exec (Prompt ''Do you want to switch to it?'')
                         (prompt_confirm G ''Do you want to switch to it?'')
                         (emit Warning (''Feature branch '' @ [CHR 0x27] @ featureBranch @ [CHR 0x27]
                                          @ '' already exists locally'') s2) of
                    (switchToBranch, s3) \<Rightarrow>
                      if switchToBranch then
                        (case checkout G featureBranch servicePath s3 of
                           (Some _, s4) \<Rightarrow>
                             (Inr False, emit Error (''Failed to switch to '' @ featureBranch) s4)
                         | (None, s4) \<Rightarrow>
                             (Inr True,
                              featureReady
                                (emit Success (''Switched to existing branch: '' @ featureBranch) s4)))
                      else (Inr False, emit Info ''Staying on current branch'' s3))
               else if remoteExists then
                 (Inr False,
                  emit SpinFail ''Failed to checkout remote branch''
                    (emit SpinStart ''Checking out remote branch...''
                      (emit Warning (''Feature branch '' @ [CHR 0x27] @ featureBranch @ [CHR 0x27]
                                       @ '' exists on remote'') s2)))
               else
                 (case createBranch G featureBranch servicePath
                         (emit SpinStart (''Creating new feature branch: '' @ featureBranch) s2) of
                    (Some _, s3) \<Rightarrow>
                      (Inr False, emit SpinFail ''Failed to create feature branch'' s3)
                  | (None, s3) \<Rightarrow>
                      (Inr True,
                       featureReady
                         (emit SpinSucceed (''Created and switched to: '' @ featureBranch) s3)))))"

text \<open>
  \<open>updateTrunk\<close> is the text from \<open>// Get current and default branches\<close> to the
  computation of \<open>featureBranch\<close>: fetch, switch to the default branch unless it is the
  current one, pull it; then \<open>openFeatureBranch\<close> on \<open>feature/\<close> and the feature name.
\<close>

definition updateTrunk :: "'w adapter \<Rightarrow> string \<Rightarrow> string \<Rightarrow> 'w st \<Rightarrow> (err + bool) \<times> 'w st" where
  "updateTrunk G servicePath featureName s =
     (case getCurrentBranch G servicePath s of
        (Inl e, s1) \<Rightarrow> (Inl e, s1)
      | (Inr currentBranch, s1) \<Rightarrow>
          (case getDefaultBranch G servicePath s1 of
             (Inl e, s2) \<Rightarrow> (Inl e, s2)
           | (Inr defaultBranch, s2) \<Rightarrow>
               (let s3 = emit SpinStart ''Fetching latest changes...''
                           (emit Item (''Default branch: '' @ defaultBranch)
                             (emit Item (''Current branch: '' @
                                 (case currentBranch of None \<Rightarrow> ''null'' | Some b \<Rightarrow> b))
                               (emit SpinSucceed ''Status check complete'' s2)))
                in case fetch G servicePath ''origin'' s3 of
                     (Some _, s4) \<Rightarrow> (Inr False, emit SpinFail ''Failed to fetch changes'' s4)
                   | (None, s4) \<Rightarrow>
                       (case (if currentBranch \<noteq> Some defaultBranch then
                                (case checkout G defaultBranch servicePath
                                        (emit SpinStart (''Switching to '' @ defaultBranch @ ''...'')
                                          (emit SpinSucceed ''Fetched latest changes'' s4)) of
                                   (Some e, s5) \<Rightarrow>
                                     (Some e, emit SpinFail (''Failed to switch to '' @ defaultBranch) s5)
                                 | (None, s5) \<Rightarrow>
                                     (None, emit SpinSucceed (''Switched to '' @ defaultBranch) s5))
                              else (None, emit SpinSucceed ''Fetched latest changes'' s4)) of
                          (Some _, s6) \<Rightarrow> (Inr False, s6)
                        | (None, s6) \<Rightarrow>
                            (case pull G servicePath ''origin'' defaultBranch
                                    (emit SpinStart ''Pulling latest changes...'' s6) of
                               (Some _, s7) \<Rightarrow>
                                 (Inr False, emit SpinFail ''Failed to pull latest changes'' s7)
                             | (None, s7) \<Rightarrow>
                                 openFeatureBranch G servicePath (featureBranchOf featureName)
                                   (emit SpinSucceed ''Pulled latest changes'' s7))))))"

definition createFeatureBranch :: "'w adapter \<Rightarrow> string \<Rightarrow> string \<Rightarrow> 'w st \<Rightarrow> (err + bool) \<times> 'w st" where
  "createFeatureBranch G serviceName featureName s =
     (let servicePath = servicePathOf serviceName;
          s1 = emits [(Section, ''Creating New Feature Branch''),
                      (Item, ''Service: '' @ serviceName),
                      (Item, ''Feature: '' @ featureName),
                      (Item, ''Path: '' @ servicePath)] s
      in case query (FsAccess servicePath) (fs_access G servicePath) s1 of
           (False, s2) \<Rightarrow>
             (case getAvailableServices G
                     (emit Error (''Service '' @ [CHR 0x27] @ serviceName @ [CHR 0x27] @ '' not found'') s2) of
                (availableServices, s3) \<Rightarrow> (Inr False, listServices availableServices s3))
         | (True, s2) \<Rightarrow>
             (case isGitRepo G servicePath s2 of
                (False, s3) \<Rightarrow>
                  (Inr False,
                   emit Info ''Make sure it's properly initialized as a submodule''
                     (emit Error ([CHR 0x27] @ serviceName @ [CHR 0x27] @ '' is not a git repository'') s3))
              | (True, s3) \<Rightarrow>
                  (case hasUncommittedChanges G servicePath
                          (emit SpinStart ''Checking current status...'' s3) of
                     (Inl e, s4) \<Rightarrow> (Inl e, s4)
                   | (Inr hasChanges, s4) \<Rightarrow>
                       if hasChanges then
                         (Inr False,
                          emit Error ''Please commit or stash your changes first''
                            (emit SpinFail ''Uncommitted changes detected'' s4))
                       else updateTrunk G servicePath featureName s4)))"

definition newFeature :: "'w adapter \<Rightarrow> string \<Rightarrow> string \<Rightarrow> 'w st \<Rightarrow> (err + bool) \<times> 'w st" where
  "newFeature G serviceName featureName s =
     (if serviceName = [] \<or> featureName = [] then
        (case getAvailableServices G
                (emits [(Error, ''Invalid arguments''),
                        (Print, ''Usage: npm run new-feature <service-name> <feature-name>''),
                        (Print, [])] s) of
           (availableServices, s1) \<Rightarrow>
             (Inr False,
              if availableServices \<noteq> [] then listServices availableServices s1
              else emit Warning ''No services directory found'' s1))
      else createFeatureBranch G serviceName featureName s)"

section \<open>commands/create-submodule-pr.js\<close>

text \<open>
  Modelled from the spec: the ways the link-PR operation of section 4.3 fails, one per
  precondition, and one for a failure of the adapter.
\<close>

datatype link_error = NoFeatureBranch | NoNewCommits | AdapterFailed err

text \<open>
  Modelled from the spec: the title, the service name and the feature name derived from
  the branch name.
\<close>

definition prTitle :: "string \<Rightarrow> string \<Rightarrow> string" where
  "prTitle serviceName branch = serviceName @ '' : '' @ replace_first ''feature/'' [] branch"

text \<open>
  Modelled from the spec: the structured body, what changed and how to verify it.
\<close>

definition prBody :: "string \<Rightarrow> string \<Rightarrow> string" where
  "prBody serviceName branch =
     ''## What changed'' @ [CHR 0x0A] @ prTitle serviceName branch @ [CHR 0x0A, CHR 0x0A]
       @ ''## How to verify'' @ [CHR 0x0A]"

text \<open>
  Modelled from the spec: the command \<open>create-submodule-pr.js\<close>, which \<open>index.js\<close> imports
  as \<open>createSubmodulePR\<close>, is not among the sources. \<open>createLinkPR\<close> follows section 4.3 of
  the specification sentence by sentence, on the helpers of \<open>utils/git.js\<close> above: the
  repository must have a branch other than the default one checked out; that branch
  must have at least one commit that the default branch lacks (asked of the adapter as
  \<open>git_ahead\<close>); the branch is pushed to \<open>origin\<close> with its upstream set; an open pull
  request with the branch as head is returned unchanged; otherwise one is requested,
  titled with the service name and the feature name taken from the branch name, as a
  draft if asked.
\<close>

definition createLinkPR :: "'w adapter \<Rightarrow> string \<Rightarrow> bool \<Rightarrow> 'w st \<Rightarrow> (link_error + pull_request) \<times> 'w st" where
  "createLinkPR G serviceName draft s =
     (let dir = servicePathOf serviceName
      in case getCurrentBranch G dir s of
           (Inl e, s1) \<Rightarrow> (Inl (AdapterFailed e), s1)
         | (Inr currentBranch, s1) \<Rightarrow>
             (case getDefaultBranch G dir s1 of
                (Inl e, s2) \<Rightarrow> (Inl (AdapterFailed e), s2)
              | (Inr defaultBranch, s2) \<Rightarrow>
                  (case currentBranch of
                     None \<Rightarrow> (Inl NoFeatureBranch, s2)
                   | Some branch \<Rightarrow>
                       if branch = defaultBranch then (Inl NoFeatureBranch, s2)
                       else
                         (case query (GitAhead dir defaultBranch) (git_ahead G dir defaultBranch) s2 of
                            (Inl e, s3) \<Rightarrow> (Inl (AdapterFailed e), s3)
                          | (Inr ahead, s3) \<Rightarrow>
                              if ahead = 0 then (Inl NoNewCommits, s3)
                              else
                                (case push G dir True (Some branch) s3 of
                                   (Some e, s4) \<Rightarrow> (Inl (AdapterFailed e), s4)
                                 | (None, s4) \<Rightarrow>
                                     (case getPRForBranch G branch dir s4 of
                                        (Some pr, s5) \<Rightarrow> (Inr pr, s5)
                                      | (None, s5) \<Rightarrow>
                                          (case createPR G (prTitle serviceName branch)
                                                  (prBody serviceName branch) (Some defaultBranch)
                                                  draft dir s5 of
                                             (Inl e, s6) \<Rightarrow> (Inl (AdapterFailed e), s6)
                                           | (Inr pr, s6) \<Rightarrow> (Inr pr, s6))))))))"

text \<open>The arguments \<open>createPR\<close> hands to \<open>gh\<close> when \<open>createLinkPR\<close> calls it.\<close>

definition createArgs :: "string \<Rightarrow> string \<Rightarrow> string \<Rightarrow> bool \<Rightarrow> string list" where
  "createArgs serviceName branch defaultBranch draft =
     [''pr'', ''create'', ''--title'', prTitle serviceName branch, ''--body'', prBody serviceName branch]
       @ (if defaultBranch \<noteq> [] then [''--base'', defaultBranch] else [])
       @ (if draft then [''--draft''] else [])"

section \<open>A small concrete world\<close>

text \<open>
  One instance of the adapter, used to run the scripts on concrete repositories. A
  repository has tracked files with changes, untracked files, staged paths, a current
  branch, branch lists, stash entries and commits. \<open>status\<close> is clean when nothing is
  modified, untracked or staged, and names \<open>HEAD\<close> as the current branch of a detached
  repository; \<open>stash push\<close> saves the changes of tracked files and
  leaves untracked files where they are, as git does without \<open>--include-untracked\<close>;
  \<open>add .\<close> stages every changed path; fetch, pull and push fail for a directory whose
  remote is unreachable and otherwise find nothing new. A branch \<open>b\<close> of the remote appears
  as \<open>origin/b\<close> in \<open>remotes\<close>, the list of \<open>branch(['-r'])\<close>, and as \<open>remotes/origin/b\<close> in
  \<open>listed\<close>, the list of \<open>branch()\<close>, which has the local branches as well.
\<close>

record repo =
  modified :: "string list"
  untracked :: "string list"
  staged :: "string list"
  head :: "string option"
  locals :: "string list"
  remotes :: "string list"
  listed :: "string list"
  origin_head :: "string option"
  ahead :: nat
  stashes :: "(string \<times> string list) list"
  commits :: "(string \<times> string list) list"

record sim =
  dirs :: "string list"
  repos :: "(string \<times> repo) list"
  unreachable :: "string list"
  clock :: string
  answers :: "bool list"
  registered :: "submodule list"
  submodule_status :: string
  next_number :: string
  open_prs :: "(string \<times> string) list"

definition not_a_repo :: err where
  "not_a_repo = ''fatal: not a git repository''"

definition sim_read :: "string \<Rightarrow> (repo \<Rightarrow> 'a) \<Rightarrow> sim \<Rightarrow> err + 'a" where
  "sim_read dir f w = (case map_of (repos w) dir of None \<Rightarrow> Inl not_a_repo | Some r \<Rightarrow> Inr (f r))"

definition sim_write :: "string \<Rightarrow> (repo \<Rightarrow> err option \<times> repo) \<Rightarrow> sim \<Rightarrow> err option \<times> sim" where
  "sim_write dir f w =
     (case map_of (repos w) dir of
        None \<Rightarrow> (Some not_a_repo, w)
      | Some r \<Rightarrow>
          (case f r of
             (e, r') \<Rightarrow> (e, w\<lparr>repos := map (\<lambda>(d, r0). if d = dir then (d, r') else (d, r0)) (repos w)\<rparr>)))"

definition sim_remote :: "string \<Rightarrow> sim \<Rightarrow> err option \<times> sim" where
  "sim_remote dir w =
     (case map_of (repos w) dir of
        None \<Rightarrow> (Some not_a_repo, w)
      | Some _ \<Rightarrow> if dir \<in> set (unreachable w) then (Some ''fatal: unable to access the remote'', w)
                  else (None, w))"

definition sim_status :: "repo \<Rightarrow> status_summary" where
  "sim_status r =
     \<lparr>isClean = (modified r = [] \<and> untracked r = [] \<and> staged r = []),
      current = Some (case head r of None \<Rightarrow> ''HEAD'' | Some b \<Rightarrow> b)\<rparr>"

definition sim_checkout :: "string \<Rightarrow> repo \<Rightarrow> err option \<times> repo" where
  "sim_checkout b r =
     (if b \<in> set (locals r) then (None, r\<lparr>head := Some b\<rparr>)
      else if (''origin/'' @ b) \<in> set (remotes r) then (None, r\<lparr>head := Some b, locals := locals r @ [b]\<rparr>)
      else (Some ''error: pathspec did not match any file(s) known to git'', r))"

definition sim_checkoutLocalBranch :: "string \<Rightarrow> repo \<Rightarrow> err option \<times> repo" where
  "sim_checkoutLocalBranch b r =
     (if b \<in> set (locals r) then (Some ''fatal: a branch with that name already exists'', r)
      else (None, r\<lparr>head := Some b, locals := locals r @ [b]\<rparr>))"

definition sim_stash_push :: "string \<Rightarrow> repo \<Rightarrow> err option \<times> repo" where
  "sim_stash_push message r =
     (if staged r @ modified r = [] then (None, r)
      else (None, r\<lparr>stashes := (message, staged r @ modified r) # stashes r,
                     staged := [], modified := []\<rparr>))"

definition sim_add :: "string \<Rightarrow> repo \<Rightarrow> err option \<times> repo" where
  "sim_add files r =
     (if files = ''.'' then
        (None, r\<lparr>staged := staged r @ modified r @ untracked r, modified := [], untracked := []\<rparr>)
      else if files \<in> set (modified r @ untracked r) then
        (None, r\<lparr>staged := staged r @ [files], modified := removeAll files (modified r),
                  untracked := removeAll files (untracked r)\<rparr>)
      else (Some ''fatal: pathspec did not match any files'', r))"

definition sim_commit :: "string \<Rightarrow> repo \<Rightarrow> err option \<times> repo" where
  "sim_commit message r =
     (if staged r = [] then (Some ''nothing to commit'', r)
      else (None, r\<lparr>commits := commits r @ [(message, staged r)], staged := []\<rparr>))"

definition sim_symbolic_ref :: "string \<Rightarrow> sim \<Rightarrow> err + string" where
  "sim_symbolic_ref dir w =
     (case map_of (repos w) dir of
        None \<Rightarrow> Inl not_a_repo
      | Some r \<Rightarrow>
          (case origin_head r of
             None \<Rightarrow> Inl ''fatal: ref refs/remotes/origin/HEAD is not a symbolic ref''
           | Some b \<Rightarrow> Inr (''refs/remotes/origin/'' @ b @ [CHR 0x0A])))"

definition sim_prompt :: "sim \<Rightarrow> bool \<times> sim" where
  "sim_prompt w = (case answers w of [] \<Rightarrow> (False, w) | a # rest \<Rightarrow> (a, w\<lparr>answers := rest\<rparr>))"

text \<open>
  The hosting side of the small world: the open pull requests, as pairs of head branch
  and number. \<open>gh pr create\<close> refuses a second pull request for a head that has one;
  otherwise it opens one under the next number and prints its URL, as the \<open>gh\<close> CLI does.
  \<open>gh pr list --head b --json number,url --jq '.[0]'\<close> prints the JSON object of the pull
  request of that head, or nothing; \<open>sim_json\<close> reads such an object back.
\<close>

definition sim_pr_url :: "string \<Rightarrow> string" where
  "sim_pr_url n = ''https://github.com/org/api/pull/'' @ n"

definition sim_pr_json :: "string \<Rightarrow> string" where
  "sim_pr_json n =
     ''{'' @ [CHR 0x22] @ ''number'' @ [CHR 0x22] @ '':'' @ n @ '','' @ [CHR 0x22] @ ''url''
       @ [CHR 0x22] @ '':'' @ [CHR 0x22] @ sim_pr_url n @ [CHR 0x22] @ ''}''"

definition sim_pr_list :: "string \<Rightarrow> sim \<Rightarrow> err + string" where
  "sim_pr_list branch w =
     (case map_of (open_prs w) branch of None \<Rightarrow> Inr [] | Some n \<Rightarrow> Inr (sim_pr_json n))"

definition sim_pr_create :: "string \<Rightarrow> string list \<Rightarrow> sim \<Rightarrow> (err + string) \<times> sim" where
  "sim_pr_create dir args w =
     (case map_of (repos w) dir of
        None \<Rightarrow> (Inl not_a_repo, w)
      | Some r \<Rightarrow>
          (case head r of
             None \<Rightarrow> (Inl ''could not determine the current branch'', w)
           | Some b \<Rightarrow>
               if map_of (open_prs w) b \<noteq> None
               then (Inl ''a pull request for this branch already exists'', w)
               else (Inr (sim_pr_url (next_number w)),
                     w\<lparr>open_prs := open_prs w @ [(b, next_number w)]\<rparr>)))"

definition sim_json :: "string \<Rightarrow> pull_request option" where
  "sim_json stdout =
     (let n = takeWhile is_digit (drop 10 stdout)
      in if n \<noteq> [] \<and> stdout = sim_pr_json n
         then Some \<lparr>pr_number = Some n, pr_url = Some (sim_pr_url n)\<rparr> else None)"

definition sim_git :: "sim adapter" where
  "sim_git =
     \<lparr>fs_access = (\<lambda>p w. p \<in> set (dirs w)),
      fs_readdir = (\<lambda>p w. if p \<in> set (dirs w) then Inr [] else Inl ''ENOENT''),
      gitmodules_entries = registered,
      git_status = (\<lambda>dir. sim_read dir sim_status),
      git_symbolic_ref = sim_symbolic_ref,
      git_branch = (\<lambda>dir. sim_read dir listed),
      git_branch_r = (\<lambda>dir. sim_read dir remotes),
      git_branchLocal = (\<lambda>dir. sim_read dir locals),
      git_submodule_status = (\<lambda>w. Inr (submodule_status w)),
      git_ahead = (\<lambda>dir base. sim_read dir ahead),
      git_fetch = (\<lambda>dir remote. sim_remote dir),
      git_pull = (\<lambda>dir remote branch. sim_remote dir),
      git_pull_default = sim_remote,
      git_checkout = (\<lambda>dir b. sim_write dir (sim_checkout b)),
      git_checkoutLocalBranch = (\<lambda>dir b. sim_write dir (sim_checkoutLocalBranch b)),
      git_stash_push = (\<lambda>dir message. sim_write dir (sim_stash_push message)),
      git_stash = (\<lambda>dir. sim_write dir (sim_stash_push [])),
      git_submoduleInit = (\<lambda>w. (None, w)),
      git_add = (\<lambda>dir files. sim_write dir (sim_add files)),
      git_commit = (\<lambda>dir message. sim_write dir (sim_commit message)),
      git_push = (\<lambda>dir setUpstream b. sim_remote dir),
      gh_pr_list_head = (\<lambda>dir. sim_pr_list),
      gh_pr_create = sim_pr_create,
      json_parse = sim_json,
      date_now_iso = clock,
      prompt_confirm = (\<lambda>message. sim_prompt)\<rparr>"

definition clean_repo :: repo where
  "clean_repo =
     \<lparr>modified = [], untracked = [], staged = [], head = Some ''main'', locals = [''main''],
      remotes = [''origin/main''], listed = [''main'', ''remotes/origin/main''],
      origin_head = Some ''main'', ahead = 0, stashes = [], commits = []\<rparr>"

definition one_service :: "repo \<Rightarrow> sim" where
  "one_service r =
     \<lparr>dirs = [''.gitmodules'', ''services/api''],
      repos = [(''services/api'', r), (''.'', clean_repo)],
      unreachable = [],
      clock = ''2025-01-15T10:30:00.000Z'',
      answers = [],
      registered = [\<lparr>sm_name = ''services/api'', sm_path = Some ''services/api'',
                     sm_url = Some ''git@github.com:org/api.git''\<rparr>],
      submodule_status = '' 1f3a services/api (heads/main)'' @ [CHR 0x0A],
      next_number = ''7'',
      open_prs = []\<rparr>"

definition dirty_repo :: repo where
  "dirty_repo = clean_repo\<lparr>modified := [''src/app.js'']\<rparr>"

definition detached_repo :: repo where
  "detached_repo = clean_repo\<lparr>head := None\<rparr>"

definition master_repo :: repo where
  "master_repo = clean_repo\<lparr>head := Some ''master'', locals := [''master''],
     remotes := [''origin/master''], listed := [''master'', ''remotes/origin/master''],
     origin_head := None\<rparr>"

definition detached_master :: repo where
  "detached_master = master_repo\<lparr>head := None\<rparr>"

definition untracked_repo :: repo where
  "untracked_repo = clean_repo\<lparr>untracked := [''notes.txt'']\<rparr>"

definition local_feature_repo :: repo where
  "local_feature_repo = clean_repo\<lparr>locals := [''main'', ''feature/login'']\<rparr>"

definition remote_feature_repo :: repo where
  "remote_feature_repo = clean_repo\<lparr>remotes := [''origin/main'', ''origin/feature/login'']\<rparr>"

definition on_feature :: "repo \<Rightarrow> repo" where
  "on_feature r = r\<lparr>head := Some ''feature/login'', locals := locals r @ [''feature/login'']\<rparr>"

definition offline :: sim where
  "offline = (one_service clean_repo)\<lparr>unreachable := [''services/api'']\<rparr>"

definition two_services :: sim where
  "two_services =
     \<lparr>dirs = [''.gitmodules'', ''services/api'', ''services/web''],
      repos = [(''services/api'', clean_repo), (''services/web'', clean_repo), (''.'', clean_repo)],
      unreachable = [''services/api''],
      clock = ''2025-01-15T10:30:00.000Z'',
      answers = [],
      registered = [\<lparr>sm_name = ''services/api'', sm_path = Some ''services/api'',
                     sm_url = Some ''git@github.com:org/api.git''\<rparr>,
                    \<lparr>sm_name = ''services/web'', sm_path = Some ''services/web'',
                     sm_url = Some ''git@github.com:org/web.git''\<rparr>],
      submodule_status = '' 1f3a services/api (heads/main)'' @ [CHR 0x0A]
                           @ '' 9c2e services/web (heads/main)'' @ [CHR 0x0A],
      next_number = ''7'',
      open_prs = []\<rparr>"

definition moved_web :: sim where
  "moved_web = two_services
     \<lparr>repos := [(''services/api'', clean_repo), (''services/web'', clean_repo),
                (''.'', clean_repo\<lparr>modified := [''services/web'', ''README.md'']\<rparr>)],
      unreachable := [], answers := [True]\<rparr>"

definition broken_api :: sim where
  "broken_api = two_services
     \<lparr>repos := [(''services/web'', clean_repo), (''.'', clean_repo)], unreachable := []\<rparr>"

definition feature_repo :: repo where
  "feature_repo = clean_repo\<lparr>head := Some ''feature/login'', locals := [''main'', ''feature/login''],
     ahead := 1\<rparr>"

section \<open>Properties\<close>

lemmas sim_defs = sim_git_def sim_read_def sim_write_def sim_remote_def sim_status_def
  sim_checkout_def sim_checkoutLocalBranch_def sim_stash_push_def
  sim_add_def sim_commit_def sim_symbolic_ref_def sim_prompt_def one_service_def clean_repo_def
  init_def

lemma exec_eq: "exec c f s = (fst (f (world s)), s\<lparr>world := snd (f (world s)), trace := trace s @ [c]\<rparr>)"
  by (simp add: exec_def split: prod.splits)

subsection \<open>Reconciling one repository\<close>

text \<open>
  C1. A repository whose working tree is dirty, synced without \<open>--force\<close>: \<open>syncSubmodule\<close>
  returns \<open>false\<close> after the warnings that uncommitted changes were detected and that
  the repository is skipped. That return value and those warnings are the form the
  skipped outcome has in the script. The only calls made are the access check and one
  \<open>status\<close>, neither of which can change anything, and the world after the call is the
  world before it.
\<close>

theorem syncSubmodule_dirty_skips:
  assumes "fs_access G submodulePath (world s)"
    and "git_status G submodulePath (world s) = Inr status"
    and "\<not> isClean status"
  shows "syncSubmodule G submodulePath submoduleName False s =
    (Inr False,
     s\<lparr>trace := trace s @ [FsAccess submodulePath, GitStatus submodulePath],
       out := out s @
         [(Section, ''Syncing submodule: '' @ submoduleName),
          (Item, ''Path: '' @ submodulePath),
          (Warning, ''Uncommitted changes detected in '' @ submoduleName),
          (Warning, ''Use --force to sync anyway, or commit your changes first''),
          (Warning, ''Skipping '' @ submoduleName @ ''...'')]\<rparr>)"
  using assms by (simp add: syncSubmodule_def hasUncommittedChanges_def query_def emit_def)

theorem syncSubmodule_dirty_skips_witness:
  "fs_access sim_git ''services/api'' (world (init (one_service dirty_repo)))
   \<and> git_status sim_git ''services/api'' (world (init (one_service dirty_repo)))
       = Inr (sim_status dirty_repo)
   \<and> \<not> isClean (sim_status dirty_repo)
   \<and> fst (syncSubmodule sim_git ''services/api'' ''api'' False (init (one_service dirty_repo)))
       = Inr False
   \<and> world (snd (syncSubmodule sim_git ''services/api'' ''api'' False (init (one_service dirty_repo))))
       = one_service dirty_repo"
proof -
  have a: "fs_access sim_git ''services/api'' (world (init (one_service dirty_repo)))"
    by (simp add: sim_defs)
  have b: "git_status sim_git ''services/api'' (world (init (one_service dirty_repo)))
             = Inr (sim_status dirty_repo)"
    by (simp add: sim_defs)
  have c: "\<not> isClean (sim_status dirty_repo)"
    by (simp add: sim_defs dirty_repo_def)
  show ?thesis
    using a b c syncSubmodule_dirty_skips [OF a b c, of "''api''"]
    by (simp add: init_def)
qed

subsection \<open>The default branch\<close>

lemma getDefaultBranch_world [simp]: "world (snd (getDefaultBranch G dir s)) = world s"
  by (simp add: getDefaultBranch_def query_def split: sum.splits)

lemma getDefaultBranch_out [simp]: "out (snd (getDefaultBranch G dir s)) = out s"
  by (simp add: getDefaultBranch_def query_def split: sum.splits)

lemma getDefaultBranch_mutating [simp]:
  "filter mutating (trace (snd (getDefaultBranch G dir s))) = filter mutating (trace s)"
  by (simp add: getDefaultBranch_def query_def split: sum.splits)

lemma getDefaultBranch_fst: "fst (getDefaultBranch G dir s) = fst (getDefaultBranch G dir (init (world s)))"
  by (simp add: getDefaultBranch_def query_def init_def split: sum.splits)

lemma dropWhile_keeps: "xs \<noteq> [] \<Longrightarrow> \<not> P (hd xs) \<Longrightarrow> dropWhile P (xs @ ys) = xs @ ys"
  by (cases xs) simp_all

lemma trim_ref:
  assumes "b \<noteq> []" and "\<not> is_space (last b)"
  shows "trim (''refs/remotes/origin/'' @ b @ [CHR 0x0A]) = ''refs/remotes/origin/'' @ b"
proof -
  have "dropWhile is_space (rev b @ rev ''refs/remotes/origin/'') = rev b @ rev ''refs/remotes/origin/''"
    using assms by (intro dropWhile_keeps) (simp_all add: hd_rev)
  then show ?thesis
    by (simp add: trim_def is_space_def)
qed

lemma replace_first_prefix: "pat \<noteq> [] \<Longrightarrow> replace_first pat rep (pat @ b) = rep @ b"
  by (cases pat) simp_all

text \<open>
  What \<open>getDefaultBranch\<close> returns, case by case, for any adapter: it changes nothing;
  when the symbolic-ref command succeeds, its output, trimmed, without the first
  \<open>refs/remotes/origin/\<close>; otherwise the branch listing decides, by the two \<open>includes\<close>
  tests on it; and when the listing fails as well, which is awaited inside the \<open>catch\<close>
  block, the call rejects with the error of the listing.
\<close>

lemma getDefaultBranch_cases:
  "(git_symbolic_ref G dir (world s) = Inr result \<longrightarrow>
      fst (getDefaultBranch G dir s) = Inr (replace_first ''refs/remotes/origin/'' [] (trim result)))
   \<and> (git_symbolic_ref G dir (world s) = Inr (''refs/remotes/origin/'' @ b @ [CHR 0x0A])
        \<and> b \<noteq> [] \<and> \<not> is_space (last b) \<longrightarrow>
      fst (getDefaultBranch G dir s) = Inr b)
   \<and> (git_symbolic_ref G dir (world s) = Inl e \<and> git_branch G dir (world s) = Inr branches \<longrightarrow>
      fst (getDefaultBranch G dir s)
        = Inr (if ''origin/main'' \<in> set branches then ''main''
               else if ''origin/master'' \<in> set branches then ''master'' else ''main''))
   \<and> (git_symbolic_ref G dir (world s) = Inl e \<and> git_branch G dir (world s) = Inl e' \<longrightarrow>
      fst (getDefaultBranch G dir s) = Inl e')
   \<and> world (snd (getDefaultBranch G dir s)) = world s
   \<and> filter mutating (trace (snd (getDefaultBranch G dir s))) = filter mutating (trace s)"
proof (intro conjI impI)
  assume "git_symbolic_ref G dir (world s) = Inr (''refs/remotes/origin/'' @ b @ [CHR 0x0A])
        \<and> b \<noteq> [] \<and> \<not> is_space (last b)"
  then show "fst (getDefaultBranch G dir s) = Inr b"
    using trim_ref [of b] replace_first_prefix [of "''refs/remotes/origin/''" "[]" b]
    by (simp add: getDefaultBranch_def query_def)
qed (simp_all add: getDefaultBranch_def query_def split: sum.splits)

text \<open>
  C10. A repository whose remote has the one branch \<open>master\<close> and no symbolic ref for
  \<open>origin/HEAD\<close>. The symbolic-ref command fails, so the branch listing decides.
  \<open>git branch -r\<close> shows \<open>origin/master\<close>; the listing of \<open>branch()\<close> has the same branch as
  \<open>remotes/origin/master\<close>, which \<open>includes('origin/master')\<close> does not find.
  \<open>getDefaultBranch\<close> returns \<open>main\<close>, the name of a branch that exists neither locally
  nor on the remote, and a checkout of it fails.
\<close>

theorem getDefaultBranch_misses_master:
  "git_symbolic_ref sim_git ''services/api'' (one_service master_repo)
     = Inl ''fatal: ref refs/remotes/origin/HEAD is not a symbolic ref''
   \<and> git_branch_r sim_git ''services/api'' (one_service master_repo) = Inr [''origin/master'']
   \<and> git_branch sim_git ''services/api'' (one_service master_repo)
     = Inr [''master'', ''remotes/origin/master'']
   \<and> fst (getDefaultBranch sim_git ''services/api'' (init (one_service master_repo))) = Inr ''main''
   \<and> fst (git_checkout sim_git ''services/api'' ''main'' (one_service master_repo))
     = Some ''error: pathspec did not match any file(s) known to git''"
  by (simp add: getDefaultBranch_def query_def sim_defs master_repo_def)

subsection \<open>Fetch and pull\<close>

lemma syncDetached_ok:
  assumes "fst (getDefaultBranch G p (init (world s))) = Inr d" and "d \<noteq> []"
    and "git_checkout G p d (world s) = (None, w2)"
  shows "filter mutating (trace (snd (syncDetached G p n s)))
           = filter mutating (trace s) @ [GitCheckout p d, GitPull p ''origin'' d]
       \<and> world (snd (syncDetached G p n s)) = snd (git_pull G p ''origin'' d w2)
       \<and> fst (syncDetached G p n s) = Inr (fst (git_pull G p ''origin'' d w2) = None)"
proof -
  obtain r t where g: "getDefaultBranch G p s = (r, t)" by (cases "getDefaultBranch G p s")
  have r: "r = Inr d" using assms(1) g getDefaultBranch_fst [of G p s] by simp
  have w: "world t = world s" using getDefaultBranch_world [of G p s] g by simp
  have m: "filter mutating (trace t) = filter mutating (trace s)"
    using getDefaultBranch_mutating [of G p s] g by simp
  show ?thesis
    using assms(2,3) r w m
    by (simp add: syncDetached_def g checkout_def pull_def exec_def emit_def
        split: prod.splits option.splits)
qed

lemma syncBranch_detached:
  assumes "git_status G p (world s) = Inr status"
    and "git_fetch G p ''origin'' (world s) = (None, w1)"
    and "current status = None \<or> current status = Some [] \<or> current status = Some ''HEAD''"
  shows "\<exists>t. syncBranch G p n s = syncDetached G p n t \<and> world t = w1
             \<and> filter mutating (trace t) = filter mutating (trace s) @ [GitFetch p ''origin'']"
  using assms(3)
proof (elim disjE)
  assume "current status = None"
  with assms(1,2) show ?thesis
    apply (simp add: syncBranch_def getCurrentBranch_def fetch_def query_def exec_def emit_def)
    apply (rule exI, rule conjI, rule refl)
    apply simp
    done
next
  assume "current status = Some []"
  with assms(1,2) show ?thesis
    apply (simp add: syncBranch_def getCurrentBranch_def fetch_def query_def exec_def emit_def)
    apply (rule exI, rule conjI, rule refl)
    apply simp
    done
next
  assume "current status = Some ''HEAD''"
  with assms(1,2) show ?thesis
    apply (simp add: syncBranch_def getCurrentBranch_def fetch_def query_def exec_def emit_def)
    apply (rule exI, rule conjI, rule refl)
    apply simp
    done
qed

text \<open>
  \<open>syncSubmodule\<close> reaches \<open>syncBranch\<close> on a clean tree, and on a dirty one with
  \<open>--force\<close> once the stash has succeeded.
\<close>

lemma syncSubmodule_clean:
  assumes "fs_access G p (world s)"
    and "git_status G p (world s) = Inr status"
    and "isClean status"
  shows "syncSubmodule G p n force s =
           syncBranch G p n
             (s\<lparr>trace := trace s @ [FsAccess p, GitStatus p],
                out := out s @ [(Section, ''Syncing submodule: '' @ n), (Item, ''Path: '' @ p)]\<rparr>)"
  using assms
  apply (simp add: syncSubmodule_def hasUncommittedChanges_def query_def emit_def)
  apply (rule arg_cong [of _ _ "syncBranch G p n"])
  apply simp
  done

lemma syncSubmodule_forced:
  assumes "fs_access G p (world s)"
    and "git_status G p (world s) = Inr status"
    and "\<not> isClean status"
    and "git_stash_push G p (''Auto-stash before sync '' @ date_now_iso G (world s)) (world s) = (None, w1)"
  shows "\<exists>t. syncSubmodule G p n True s = syncBranch G p n t \<and> world t = w1
             \<and> filter mutating (trace t)
                 = filter mutating (trace s)
                     @ [GitStashPush p (''Auto-stash before sync '' @ date_now_iso G (world s))]"
  using assms
  apply (simp add: syncSubmodule_def hasUncommittedChanges_def stash_def query_def exec_eq emit_def)
  apply (rule exI, rule conjI, rule refl)
  apply simp
  done

text \<open>
  \<open>syncBranch\<close> is what \<open>syncSubmodule\<close> runs once the dirty-tree check is behind it, here
  for any adapter. On a named branch \<open>b\<close> (a current branch that is neither empty nor
  \<open>HEAD\<close>) the calls that can change anything are the fetch from \<open>origin\<close> and then the
  pull of \<open>b\<close> from \<open>origin\<close>, and the result is whether that pull succeeded. Detached,
  after the same fetch, the default branch \<open>d\<close> is resolved in the fetched repository,
  \<open>d\<close> is checked out and then pulled from \<open>origin\<close>.
\<close>

lemma syncBranch_calls:
  assumes "git_status G p (world s) = Inr status"
    and "git_fetch G p ''origin'' (world s) = (None, w1)"
  shows "(current status = Some b \<and> b \<noteq> [] \<and> b \<noteq> ''HEAD'' \<longrightarrow>
            filter mutating (trace (snd (syncBranch G p n s)))
              = filter mutating (trace s) @ [GitFetch p ''origin'', GitPull p ''origin'' b]
            \<and> world (snd (syncBranch G p n s)) = snd (git_pull G p ''origin'' b w1)
            \<and> fst (syncBranch G p n s) = Inr (fst (git_pull G p ''origin'' b w1) = None))
       \<and> ((current status = None \<or> current status = Some [] \<or> current status = Some ''HEAD'')
            \<and> fst (getDefaultBranch G p (init w1)) = Inr d \<and> d \<noteq> []
            \<and> git_checkout G p d w1 = (None, w2) \<longrightarrow>
            filter mutating (trace (snd (syncBranch G p n s)))
              = filter mutating (trace s) @ [GitFetch p ''origin'', GitCheckout p d, GitPull p ''origin'' d]
            \<and> world (snd (syncBranch G p n s)) = snd (git_pull G p ''origin'' d w2)
            \<and> fst (syncBranch G p n s) = Inr (fst (git_pull G p ''origin'' d w2) = None))
       \<and> (git_symbolic_ref G p w1 = Inr result \<longrightarrow>
            fst (getDefaultBranch G p (init w1))
              = Inr (replace_first ''refs/remotes/origin/'' [] (trim result)))
       \<and> (git_symbolic_ref G p w1 = Inl e \<and> git_branch G p w1 = Inr branches \<longrightarrow>
            fst (getDefaultBranch G p (init w1))
              = Inr (if ''origin/main'' \<in> set branches then ''main''
                     else if ''origin/master'' \<in> set branches then ''master'' else ''main''))"
proof (intro conjI impI)
  assume a: "current status = Some b \<and> b \<noteq> [] \<and> b \<noteq> ''HEAD''"
  show "filter mutating (trace (snd (syncBranch G p n s)))
              = filter mutating (trace s) @ [GitFetch p ''origin'', GitPull p ''origin'' b]"
    using assms a
    by (simp add: syncBranch_def getCurrentBranch_def fetch_def pull_def query_def exec_def emit_def
        split: prod.splits option.splits)
  show "world (snd (syncBranch G p n s)) = snd (git_pull G p ''origin'' b w1)"
    using assms a
    by (simp add: syncBranch_def getCurrentBranch_def fetch_def pull_def query_def exec_def emit_def
        split: prod.splits option.splits)
  show "fst (syncBranch G p n s) = Inr (fst (git_pull G p ''origin'' b w1) = None)"
    using assms a
    by (simp add: syncBranch_def getCurrentBranch_def fetch_def pull_def query_def exec_def emit_def
        split: prod.splits option.splits)
next
  assume a: "(current status = None \<or> current status = Some [] \<or> current status = Some ''HEAD'')
            \<and> fst (getDefaultBranch G p (init w1)) = Inr d \<and> d \<noteq> []
            \<and> git_checkout G p d w1 = (None, w2)"
  from a syncBranch_detached [OF assms, of n] obtain t where
    e: "syncBranch G p n s = syncDetached G p n t" and wt: "world t = w1"
    and tt: "filter mutating (trace t) = filter mutating (trace s) @ [GitFetch p ''origin'']"
    by blast
  have d: "fst (getDefaultBranch G p (init (world t))) = Inr d" using a wt by simp
  have c: "git_checkout G p d (world t) = (None, w2)" using a wt by simp
  show "filter mutating (trace (snd (syncBranch G p n s)))
              = filter mutating (trace s) @ [GitFetch p ''origin'', GitCheckout p d, GitPull p ''origin'' d]"
    using syncDetached_ok [OF d _ c, of n] a tt by (simp add: e)
  show "world (snd (syncBranch G p n s)) = snd (git_pull G p ''origin'' d w2)"
    using syncDetached_ok [OF d _ c, of n] a by (simp add: e)
  show "fst (syncBranch G p n s) = Inr (fst (git_pull G p ''origin'' d w2) = None)"
    using syncDetached_ok [OF d _ c, of n] a by (simp add: e)
next
  assume "git_symbolic_ref G p w1 = Inr result"
  then show "fst (getDefaultBranch G p (init w1))
      = Inr (replace_first ''refs/remotes/origin/'' [] (trim result))"
    by (simp add: getDefaultBranch_def query_def init_def)
next
  assume "git_symbolic_ref G p w1 = Inl e \<and> git_branch G p w1 = Inr branches"
  then show "fst (getDefaultBranch G p (init w1))
      = Inr (if ''origin/main'' \<in> set branches then ''main''
             else if ''origin/master'' \<in> set branches then ''master'' else ''main'')"
    by (simp add: getDefaultBranch_def query_def init_def)
qed

text \<open>
  Two runs that go as intended: a repository on \<open>main\<close>, and a detached one whose remote
  has a symbolic ref for \<open>origin/HEAD\<close>.
\<close>

lemma syncSubmodule_runs:
  "fst (syncSubmodule sim_git ''services/api'' ''api'' False (init (one_service clean_repo))) = Inr True
   \<and> filter mutating (trace (snd (syncSubmodule sim_git ''services/api'' ''api'' False
                                     (init (one_service clean_repo)))))
     = [GitFetch ''services/api'' ''origin'', GitPull ''services/api'' ''origin'' ''main'']
   \<and> fst (syncSubmodule sim_git ''services/api'' ''api'' False (init (one_service detached_repo))) = Inr True
   \<and> filter mutating (trace (snd (syncSubmodule sim_git ''services/api'' ''api'' False
                                     (init (one_service detached_repo)))))
     = [GitFetch ''services/api'' ''origin'', GitCheckout ''services/api'' ''main'',
        GitPull ''services/api'' ''origin'' ''main'']
   \<and> world (snd (syncSubmodule sim_git ''services/api'' ''api'' False (init (one_service detached_repo))))
     = one_service clean_repo"
  by (simp add: syncSubmodule_def syncBranch_def syncDetached_def hasUncommittedChanges_def
      getCurrentBranch_def getDefaultBranch_def fetch_def pull_def checkout_def query_def exec_def
      emit_def sim_defs detached_repo_def trim_def is_space_def Let_def)

text \<open>
  C4. A detached repository whose remote has the one branch \<open>master\<close> and no symbolic ref
  for \<open>origin/HEAD\<close>, with a clean tree. After the fetch, \<open>getDefaultBranch\<close> is to fall
  back to \<open>main\<close> and then to \<open>master\<close>; it looks for \<open>origin/master\<close> in a listing that has
  \<open>remotes/origin/master\<close>, misses it and answers \<open>main\<close>. The checkout of \<open>main\<close> fails,
  nothing is pulled, the sync returns \<open>false\<close> and the repository stays detached.
\<close>

theorem syncSubmodule_detached_master:
  "fst (syncSubmodule sim_git ''services/api'' ''api'' False (init (one_service detached_master)))
     = Inr False
   \<and> filter mutating (trace (snd (syncSubmodule sim_git ''services/api'' ''api'' False
                                     (init (one_service detached_master)))))
     = [GitFetch ''services/api'' ''origin'', GitCheckout ''services/api'' ''main'']
   \<and> world (snd (syncSubmodule sim_git ''services/api'' ''api'' False (init (one_service detached_master))))
     = one_service detached_master
   \<and> out (snd (syncSubmodule sim_git ''services/api'' ''api'' False (init (one_service detached_master))))
     = [(Section, ''Syncing submodule: api''), (Item, ''Path: services/api''),
        (Item, ''Current branch: HEAD''), (SpinStart, ''Fetching latest changes...''),
        (SpinSucceed, ''Fetched latest changes''), (SpinStart, ''Checking out main...''),
        (SpinFail, ''Failed to checkout main'')]
   \<and> git_branch_r sim_git ''services/api'' (one_service detached_master) = Inr [''origin/master'']"
  by (simp add: syncSubmodule_def syncBranch_def syncDetached_def hasUncommittedChanges_def
      getCurrentBranch_def getDefaultBranch_def fetch_def pull_def checkout_def query_def exec_def
      emit_def sim_defs detached_master_def master_repo_def Let_def)

subsection \<open>Forced sync\<close>

text \<open>
  C5. With \<open>--force\<close> a dirty repository is stashed under the message
  \<open>Auto-stash before sync\<close> and the ISO time of the clock, and the sync goes on to fetch
  and pull. The run below is a repository whose only change is an untracked file.
  \<open>status.isClean()\<close> counts the file, so the tree is dirty; \<open>git stash push -m\<close>, called
  without \<open>--include-untracked\<close>, saves nothing and succeeds. The sync reports success,
  yet the repository is as it was: not clean, and without a stash entry.
\<close>

theorem syncSubmodule_force_untracked:
  "fst (syncSubmodule sim_git ''services/api'' ''api'' True (init (one_service untracked_repo))) = Inr True
   \<and> world (snd (syncSubmodule sim_git ''services/api'' ''api'' True (init (one_service untracked_repo))))
       = one_service untracked_repo
   \<and> filter mutating (trace (snd (syncSubmodule sim_git ''services/api'' ''api'' True (init (one_service untracked_repo)))))
       = [GitStashPush ''services/api'' ''Auto-stash before sync 2025-01-15T10:30:00.000Z'',
          GitFetch ''services/api'' ''origin'', GitPull ''services/api'' ''origin'' ''main'']
   \<and> git_status sim_git ''services/api'' (one_service untracked_repo)
       = Inr \<lparr>isClean = False, current = Some ''main''\<rparr>
   \<and> sim_read ''services/api'' stashes (one_service untracked_repo) = Inr []"
  by (simp add: syncSubmodule_def syncBranch_def hasUncommittedChanges_def getCurrentBranch_def
      stash_def fetch_def pull_def query_def exec_def emit_def sim_defs untracked_repo_def)

text \<open>
  The same run on a repository whose change is in a tracked file: the change goes into
  one stash entry under the time-stamped message, and the tree is clean afterwards.
\<close>

lemma syncSubmodule_force_tracked:
  "fst (syncSubmodule sim_git ''services/api'' ''api'' True (init (one_service dirty_repo))) = Inr True
   \<and> world (snd (syncSubmodule sim_git ''services/api'' ''api'' True (init (one_service dirty_repo))))
       = one_service (clean_repo\<lparr>stashes :=
           [(''Auto-stash before sync 2025-01-15T10:30:00.000Z'', [''src/app.js''])]\<rparr>)
   \<and> git_status sim_git ''services/api''
         (one_service (clean_repo\<lparr>stashes :=
           [(''Auto-stash before sync 2025-01-15T10:30:00.000Z'', [''src/app.js''])]\<rparr>))
       = Inr \<lparr>isClean = True, current = Some ''main''\<rparr>"
  by (simp add: syncSubmodule_def syncBranch_def hasUncommittedChanges_def getCurrentBranch_def
      stash_def fetch_def pull_def query_def exec_def emit_def sim_defs dirty_repo_def)

section \<open>Starting a feature\<close>

lemma succeeded: "fst (f w) = None \<Longrightarrow> \<exists>w'. f w' = (None, snd (f w))"
  by (rule exI [of _ w]) (simp add: prod_eq_iff)

lemmas open_defs = openFeatureBranch_def branchExists_def remoteBranchExists_def
  getLocalBranches_def getRemoteBranches_def checkout_def createBranch_def
  featureReady_def query_def exec_eq emit_def

lemma getCurrentBranch_snd:
  "snd (getCurrentBranch G dir s) = s\<lparr>trace := trace s @ [GitStatus dir]\<rparr>"
  by (simp add: getCurrentBranch_def query_def split: sum.splits)

lemma updateTrunk_open:
  assumes gc: "fst (getCurrentBranch G p s) = Inr cur"
    and gd: "fst (getDefaultBranch G p (init (world s))) = Inr d"
    and ne: "d \<noteq> []"
    and fe: "git_fetch G p ''origin'' (world s) = (None, w1)"
    and co: "if cur = Some d then w2 = w1 else git_checkout G p d w1 = (None, w2)"
    and pu: "git_pull G p ''origin'' d w2 = (None, w3)"
  shows "\<exists>t. updateTrunk G p fn s = openFeatureBranch G p (''feature/'' @ fn) t
             \<and> world t = w3
             \<and> filter mutating (trace t)
                 = filter mutating (trace s) @ [GitFetch p ''origin'']
                     @ (if cur = Some d then [] else [GitCheckout p d]) @ [GitPull p ''origin'' d]"
proof -
  let ?s1 = "s\<lparr>trace := trace s @ [GitStatus p]\<rparr>"
  have 1: "getCurrentBranch G p s = (Inr cur, ?s1)"
    using gc getCurrentBranch_snd [of G p s] by (simp add: prod_eq_iff)
  obtain s2 where 2: "getDefaultBranch G p ?s1 = (Inr d, s2)"
    using gd getDefaultBranch_fst [of G p ?s1] by (cases "getDefaultBranch G p ?s1") simp
  have w2: "world s2 = world s"
    using getDefaultBranch_world [of G p ?s1] 2 by simp
  have m2: "filter mutating (trace s2) = filter mutating (trace s)"
    using getDefaultBranch_mutating [of G p ?s1] 2 by simp
  show ?thesis
  proof (cases "cur = Some d")
    case True
    with 1 2 w2 m2 ne fe co pu show ?thesis
      apply (simp add: updateTrunk_def fetch_def pull_def exec_eq emit_def featureBranchOf_def)
      apply (rule exI, rule conjI, rule refl)
      apply simp
      done
  next
    case False
    with 1 2 w2 m2 ne fe co pu show ?thesis
      apply (simp add: updateTrunk_def fetch_def checkout_def pull_def exec_eq emit_def featureBranchOf_def)
      apply (rule exI, rule conjI, rule refl)
      apply simp
      done
  qed
qed

lemmas feature_defs = createFeatureBranch_def updateTrunk_def openFeatureBranch_def isGitRepo_def
  hasUncommittedChanges_def getCurrentBranch_def getDefaultBranch_def fetch_def pull_def
  checkout_def createBranch_def branchExists_def remoteBranchExists_def
  getLocalBranches_def getRemoteBranches_def featureReady_def featureBranchOf_def
  servicePathOf_def query_def exec_def emit_def emits_def trim_def is_space_def Let_def

text \<open>
  C7. A service whose working tree is dirty: \<open>createFeatureBranch\<close> returns \<open>false\<close> after
  the spinner failure \<open>Uncommitted changes detected\<close> and the error asking to commit or
  stash first, which is the form the dirty-tree error has in the script. It has made
  three calls by then, the access check and two \<open>status\<close> calls; none of them is a
  fetch, a checkout, a pull, a branch creation or a stash, and the world is the one it
  started in.
\<close>

theorem createFeatureBranch_dirty_stops:
  assumes "fs_access G (servicePathOf serviceName) (world s)"
    and "git_status G (servicePathOf serviceName) (world s) = Inr status"
    and "\<not> isClean status"
  shows "fst (createFeatureBranch G serviceName featureName s) = Inr False
       \<and> world (snd (createFeatureBranch G serviceName featureName s)) = world s
       \<and> trace (snd (createFeatureBranch G serviceName featureName s))
           = trace s @ [FsAccess (servicePathOf serviceName), GitStatus (servicePathOf serviceName),
                        GitStatus (servicePathOf serviceName)]
       \<and> (SpinFail, ''Uncommitted changes detected'')
           \<in> set (out (snd (createFeatureBranch G serviceName featureName s)))
       \<and> (Error, ''Please commit or stash your changes first'')
           \<in> set (out (snd (createFeatureBranch G serviceName featureName s)))"
  using assms
  by (simp add: createFeatureBranch_def isGitRepo_def hasUncommittedChanges_def query_def emit_def
      emits_def Let_def split: sum.splits)

theorem createFeatureBranch_dirty_stops_witness:
  "fst (createFeatureBranch sim_git ''api'' ''login'' (init (one_service dirty_repo))) = Inr False
   \<and> world (snd (createFeatureBranch sim_git ''api'' ''login'' (init (one_service dirty_repo))))
       = one_service dirty_repo
   \<and> trace (snd (createFeatureBranch sim_git ''api'' ''login'' (init (one_service dirty_repo))))
       = [FsAccess ''services/api'', GitStatus ''services/api'', GitStatus ''services/api'']"
proof -
  have a: "fs_access sim_git (servicePathOf ''api'') (world (init (one_service dirty_repo)))"
    by (simp add: sim_defs servicePathOf_def)
  have b: "git_status sim_git (servicePathOf ''api'') (world (init (one_service dirty_repo)))
             = Inr (sim_status dirty_repo)"
    by (simp add: sim_defs servicePathOf_def)
  have c: "\<not> isClean (sim_status dirty_repo)"
    by (simp add: sim_defs dirty_repo_def)
  show ?thesis
    using createFeatureBranch_dirty_stops [OF a b c, of "''login''"]
    by (simp add: init_def servicePathOf_def)
qed

subsection \<open>The branch name\<close>

lemma updateTrunk_True:
  assumes "fst (updateTrunk G p fn s) = Inr True"
  shows "\<exists>t. updateTrunk G p fn s = openFeatureBranch G p (featureBranchOf fn) t"
proof -
  obtain r1 s1 where 1: "getCurrentBranch G p s = (r1, s1)" by force
  obtain r2 s2 where 2: "getDefaultBranch G p s1 = (r2, s2)" by force
  from assms 1 obtain cur where c: "r1 = Inr cur"
    by (cases r1) (simp_all add: updateTrunk_def)
  from assms 1 2 c obtain d where d: "r2 = Inr d"
    by (cases r2) (simp_all add: updateTrunk_def)
  let ?s3 = "emit SpinStart ''Fetching latest changes...''
                           (emit Item (''Default branch: '' @ d)
                             (emit Item (''Current branch: '' @
                                 (case cur of None \<Rightarrow> ''null'' | Some b \<Rightarrow> b))
                               (emit SpinSucceed ''Status check complete'' s2)))"
  obtain r4 s4 where 4: "fetch G p ''origin'' ?s3 = (r4, s4)" by force
  from assms 1 2 c d 4 have f: "r4 = None"
    by (cases r4) (simp_all add: updateTrunk_def)
  let ?sw = "(if cur \<noteq> Some d then
                                (case checkout G d p
                                        (emit SpinStart (''Switching to '' @ d @ ''...'')
                                          (emit SpinSucceed ''Fetched latest changes'' s4)) of
                                   (Some e, s5) \<Rightarrow>
                                     (Some e, emit SpinFail (''Failed to switch to '' @ d) s5)
                                 | (None, s5) \<Rightarrow>
                                     (None, emit SpinSucceed (''Switched to '' @ d) s5))
                              else (None, emit SpinSucceed ''Fetched latest changes'' s4))"
  obtain r6 s6 where 6: "?sw = (r6, s6)" by force
  from assms 1 2 c d 4 f 6 have g: "r6 = None"
    by (cases r6) (simp_all add: updateTrunk_def)
  obtain r7 s7 where 7: "pull G p ''origin'' d (emit SpinStart ''Pulling latest changes...'' s6) = (r7, s7)"
    by force
  from assms 1 2 c d 4 f 6 g 7 have h: "r7 = None"
    by (cases r7) (simp_all add: updateTrunk_def)
  from 1 2 c d 4 f 6 g 7 h show ?thesis
    by (simp add: updateTrunk_def) blast
qed

lemma createFeatureBranch_True:
  assumes "fst (createFeatureBranch G sn fn s) = Inr True"
  shows "\<exists>t. createFeatureBranch G sn fn s = updateTrunk G (servicePathOf sn) fn t"
proof -
  let ?p = "servicePathOf sn"
  let ?s1 = "emits [(Section, ''Creating New Feature Branch''),
                      (Item, ''Service: '' @ sn),
                      (Item, ''Feature: '' @ fn),
                      (Item, ''Path: '' @ ?p)] s"
  obtain r2 s2 where 2: "query (FsAccess ?p) (fs_access G ?p) ?s1 = (r2, s2)" by force
  from assms 2 have a: "r2"
    by (cases r2) (simp_all add: createFeatureBranch_def Let_def split: prod.splits)
  obtain r3 s3 where 3: "isGitRepo G ?p s2 = (r3, s3)" by force
  from assms 2 a 3 have b: "r3"
    by (cases r3) (simp_all add: createFeatureBranch_def Let_def)
  obtain r4 s4 where 4: "hasUncommittedChanges G ?p (emit SpinStart ''Checking current status...'' s3) = (r4, s4)"
    by force
  from assms 2 a 3 b 4 have c: "r4 = Inr False"
    by (cases r4) (auto simp: createFeatureBranch_def Let_def split: prod.splits sum.splits if_splits)
  from 2 a 3 b 4 c show ?thesis
    by (auto simp: createFeatureBranch_def Let_def)
qed

lemma openFeatureBranch_True:
  assumes "fst (openFeatureBranch G p fb s) = Inr True"
  shows "\<exists>w. (last (trace (snd (openFeatureBranch G p fb s))) = GitCheckout p fb
               \<and> git_checkout G p fb w = (None, world (snd (openFeatureBranch G p fb s))))
           \<or> (last (trace (snd (openFeatureBranch G p fb s))) = GitCheckoutLocalBranch p fb
               \<and> git_checkoutLocalBranch G p fb w = (None, world (snd (openFeatureBranch G p fb s))))"
proof (cases "git_branchLocal G p (world s)")
  case (Inl e)
  with assms show ?thesis by (simp add: open_defs)
next
  case loc: (Inr localBranches)
  show ?thesis
  proof (cases "git_branch_r G p (world s)")
    case (Inl e)
    with assms loc show ?thesis by (simp add: open_defs)
  next
    case rem: (Inr remoteBranches)
    show ?thesis
    proof (cases "fb \<in> set localBranches")
      case True
      with assms loc rem show ?thesis
        by (simp add: open_defs succeeded split: if_splits option.splits)
    next
      case False
      with assms loc rem show ?thesis
        by (simp add: open_defs succeeded split: if_splits option.splits)
    qed
  qed
qed

text \<open>
  C8. When \<open>createFeatureBranch\<close> returns \<open>true\<close>, the last call it made is a checkout
  that succeeded and produced the final state of the repository, and the branch it
  names is \<open>feature/\<close> followed by the feature name as given: \<open>checkout\<close> of that branch
  or \<open>checkoutLocalBranch\<close> of it. Nothing in the name depends on the service, on the
  branch the repository was on, or on which branches exist.
\<close>

theorem createFeatureBranch_name:
  assumes "fst (createFeatureBranch G serviceName featureName s) = Inr True"
  shows "\<exists>w. (last (trace (snd (createFeatureBranch G serviceName featureName s)))
                 = GitCheckout (servicePathOf serviceName) (''feature/'' @ featureName)
               \<and> git_checkout G (servicePathOf serviceName) (''feature/'' @ featureName) w
                 = (None, world (snd (createFeatureBranch G serviceName featureName s))))
           \<or> (last (trace (snd (createFeatureBranch G serviceName featureName s)))
                 = GitCheckoutLocalBranch (servicePathOf serviceName) (''feature/'' @ featureName)
               \<and> git_checkoutLocalBranch G (servicePathOf serviceName) (''feature/'' @ featureName) w
                 = (None, world (snd (createFeatureBranch G serviceName featureName s))))"
proof -
  from createFeatureBranch_True [OF assms] obtain t where
    1: "createFeatureBranch G serviceName featureName s = updateTrunk G (servicePathOf serviceName) featureName t"
    by blast
  with assms have "fst (updateTrunk G (servicePathOf serviceName) featureName t) = Inr True" by simp
  from updateTrunk_True [OF this] obtain u where
    2: "updateTrunk G (servicePathOf serviceName) featureName t
          = openFeatureBranch G (servicePathOf serviceName) (featureBranchOf featureName) u"
    by blast
  with 1 assms have "fst (openFeatureBranch G (servicePathOf serviceName) (featureBranchOf featureName) u) = Inr True"
    by simp
  from openFeatureBranch_True [OF this] show ?thesis
    by (simp add: 1 2 featureBranchOf_def)
qed

theorem createFeatureBranch_name_witness:
  "fst (createFeatureBranch sim_git ''api'' ''login'' (init (one_service clean_repo))) = Inr True
   \<and> last (trace (snd (createFeatureBranch sim_git ''api'' ''login'' (init (one_service clean_repo)))))
       = GitCheckoutLocalBranch ''services/api'' ''feature/login''
   \<and> world (snd (createFeatureBranch sim_git ''api'' ''login'' (init (one_service clean_repo))))
       = one_service (on_feature clean_repo)"
proof -
  have r: "createFeatureBranch sim_git ''api'' ''login'' (init (one_service clean_repo))
     = (Inr True, snd (createFeatureBranch sim_git ''api'' ''login'' (init (one_service clean_repo))))"
    by (simp add: feature_defs sim_defs)
  have t: "trace (snd (createFeatureBranch sim_git ''api'' ''login'' (init (one_service clean_repo))))
     = [FsAccess ''services/api'', GitStatus ''services/api'', GitStatus ''services/api'',
        GitStatus ''services/api'', GitSymbolicRef ''services/api'',
        GitFetch ''services/api'' ''origin'', GitPull ''services/api'' ''origin'' ''main'',
        GitBranchLocal ''services/api'', GitBranchR ''services/api'',
        GitCheckoutLocalBranch ''services/api'' ''feature/login'']"
    by (simp add: feature_defs sim_defs)
  have w: "world (snd (createFeatureBranch sim_git ''api'' ''login'' (init (one_service clean_repo))))
       = one_service (on_feature clean_repo)"
    by (simp add: feature_defs sim_defs on_feature_def)
  have h: "fst (createFeatureBranch sim_git ''api'' ''login'' (init (one_service clean_repo))) = Inr True"
    using r by (simp add: prod_eq_iff)
  show ?thesis
    using createFeatureBranch_name [OF h] h t w by simp
qed

subsection \<open>Existing branches\<close>

text \<open>
  The three-way \<open>if\<close> of \<open>openFeatureBranch\<close>, for any adapter, with the two branch lists at
  hand: a local branch is switched to only after the prompt; a branch on the remote only
  ends in the failure message with no call after the two listings; a branch that exists
  nowhere is created with \<open>checkoutLocalBranch\<close>.
\<close>

lemma openFeatureBranch_rows:
  assumes "git_branchLocal G p (world s) = Inr localBranches"
    and "git_branch_r G p (world s) = Inr remoteBranches"
  shows "(fb \<in> set localBranches \<and> prompt_confirm G ''Do you want to switch to it?'' (world s) = (False, w) \<longrightarrow>
            fst (openFeatureBranch G p fb s) = Inr False
            \<and> trace (snd (openFeatureBranch G p fb s))
                = trace s @ [GitBranchLocal p, GitBranchR p, Prompt ''Do you want to switch to it?'']
            \<and> world (snd (openFeatureBranch G p fb s)) = w)
       \<and> (fb \<in> set localBranches \<and> prompt_confirm G ''Do you want to switch to it?'' (world s) = (True, w) \<longrightarrow>
            fst (openFeatureBranch G p fb s) = Inr (fst (git_checkout G p fb w) = None)
            \<and> trace (snd (openFeatureBranch G p fb s))
                = trace s @ [GitBranchLocal p, GitBranchR p, Prompt ''Do you want to switch to it?'',
                             GitCheckout p fb]
            \<and> world (snd (openFeatureBranch G p fb s)) = snd (git_checkout G p fb w))
       \<and> (fb \<notin> set localBranches \<and> fb \<in> set (map (replace_first ''origin/'' []) remoteBranches) \<longrightarrow>
            fst (openFeatureBranch G p fb s) = Inr False
            \<and> trace (snd (openFeatureBranch G p fb s)) = trace s @ [GitBranchLocal p, GitBranchR p]
            \<and> world (snd (openFeatureBranch G p fb s)) = world s
            \<and> (SpinFail, ''Failed to checkout remote branch'')
                  \<in> set (out (snd (openFeatureBranch G p fb s))))
       \<and> (fb \<notin> set localBranches \<and> fb \<notin> set (map (replace_first ''origin/'' []) remoteBranches) \<longrightarrow>
            fst (openFeatureBranch G p fb s) = Inr (fst (git_checkoutLocalBranch G p fb (world s)) = None)
            \<and> trace (snd (openFeatureBranch G p fb s))
                = trace s @ [GitBranchLocal p, GitBranchR p, GitCheckoutLocalBranch p fb]
            \<and> world (snd (openFeatureBranch G p fb s)) = snd (git_checkoutLocalBranch G p fb (world s)))"
proof (intro conjI impI)
  assume "fb \<in> set localBranches \<and> prompt_confirm G ''Do you want to switch to it?'' (world s) = (False, w)"
  with assms show "fst (openFeatureBranch G p fb s) = Inr False"
    and "trace (snd (openFeatureBranch G p fb s))
                = trace s @ [GitBranchLocal p, GitBranchR p, Prompt ''Do you want to switch to it?'']"
    and "world (snd (openFeatureBranch G p fb s)) = w"
    by (simp_all add: open_defs)
next
  assume "fb \<in> set localBranches \<and> prompt_confirm G ''Do you want to switch to it?'' (world s) = (True, w)"
  with assms show "fst (openFeatureBranch G p fb s) = Inr (fst (git_checkout G p fb w) = None)"
    and "trace (snd (openFeatureBranch G p fb s))
                = trace s @ [GitBranchLocal p, GitBranchR p, Prompt ''Do you want to switch to it?'',
                             GitCheckout p fb]"
    and "world (snd (openFeatureBranch G p fb s)) = snd (git_checkout G p fb w)"
    by (simp_all add: open_defs split: option.splits)
next
  assume "fb \<notin> set localBranches \<and> fb \<in> set (map (replace_first ''origin/'' []) remoteBranches)"
  with assms show "fst (openFeatureBranch G p fb s) = Inr False"
    and "trace (snd (openFeatureBranch G p fb s)) = trace s @ [GitBranchLocal p, GitBranchR p]"
    and "world (snd (openFeatureBranch G p fb s)) = world s"
    and "(SpinFail, ''Failed to checkout remote branch'') \<in> set (out (snd (openFeatureBranch G p fb s)))"
    by (simp_all add: open_defs)
next
  assume "fb \<notin> set localBranches \<and> fb \<notin> set (map (replace_first ''origin/'' []) remoteBranches)"
  with assms show "fst (openFeatureBranch G p fb s) = Inr (fst (git_checkoutLocalBranch G p fb (world s)) = None)"
    and "trace (snd (openFeatureBranch G p fb s))
                = trace s @ [GitBranchLocal p, GitBranchR p, GitCheckoutLocalBranch p fb]"
    and "world (snd (openFeatureBranch G p fb s)) = snd (git_checkoutLocalBranch G p fb (world s))"
    by (simp_all add: open_defs split: option.splits)
qed

lemma openFeatureBranch_warns:
  assumes "git_branchLocal G p (world s) = Inr localBranches"
    and "git_branch_r G p (world s) = Inr remoteBranches"
    and "fb \<in> set localBranches"
  shows "(Warning, ''Feature branch '' @ [CHR 0x27] @ fb @ [CHR 0x27] @ '' already exists locally'')
           \<in> set (out (snd (openFeatureBranch G p fb s)))"
  using assms by (simp add: open_defs split: option.splits)

text \<open>
  The rows of the table that go as intended, as whole runs of \<open>createFeatureBranch\<close>: a
  local \<open>feature/login\<close> with the operator declining (the prompt is the last call and the
  repository is as it was), the same with the operator accepting, and a branch that
  exists nowhere, created after the fetch and the pull of \<open>main\<close>.
\<close>

lemma createFeatureBranch_rows:
  "fst (createFeatureBranch sim_git ''api'' ''login'' (init (one_service local_feature_repo))) = Inr False
   \<and> last (trace (snd (createFeatureBranch sim_git ''api'' ''login'' (init (one_service local_feature_repo)))))
     = Prompt ''Do you want to switch to it?''
   \<and> world (snd (createFeatureBranch sim_git ''api'' ''login'' (init (one_service local_feature_repo))))
     = one_service local_feature_repo
   \<and> fst (createFeatureBranch sim_git ''api'' ''login''
            (init ((one_service local_feature_repo)\<lparr>answers := [True]\<rparr>))) = Inr True
   \<and> filter mutating (trace (snd (createFeatureBranch sim_git ''api'' ''login''
            (init ((one_service local_feature_repo)\<lparr>answers := [True]\<rparr>)))))
     = [GitFetch ''services/api'' ''origin'', GitPull ''services/api'' ''origin'' ''main'',
        GitCheckout ''services/api'' ''feature/login'']
   \<and> fst (createFeatureBranch sim_git ''api'' ''login'' (init (one_service clean_repo))) = Inr True
   \<and> filter mutating (trace (snd (createFeatureBranch sim_git ''api'' ''login''
            (init (one_service clean_repo)))))
     = [GitFetch ''services/api'' ''origin'', GitPull ''services/api'' ''origin'' ''main'',
        GitCheckoutLocalBranch ''services/api'' ''feature/login'']"
  by (simp add: feature_defs sim_defs local_feature_repo_def)

text \<open>
  C6. \<open>createFeatureBranch('api', 'login')\<close> in a clean repository on \<open>main\<close> where
  \<open>feature/login\<close> exists on the remote only. The row of the table for it is to check
  out a local branch tracking \<open>origin/feature/login\<close>. The script announces that and
  calls \<open>gitHelpers.git.checkoutBranch\<close>; \<open>gitHelpers\<close> has no member \<open>git\<close>, the call
  throws before it reaches git, and the \<open>catch\<close> reports \<open>Failed to checkout remote
  branch\<close>. The function returns \<open>false\<close>; the fetch and the pull of \<open>main\<close> are the only
  calls that could have changed anything, no branch was checked out, and the repository
  has no local \<open>feature/login\<close> afterwards.
\<close>

theorem createFeatureBranch_remote_only:
  "fst (createFeatureBranch sim_git ''api'' ''login'' (init (one_service remote_feature_repo))) = Inr False
   \<and> git_branch_r sim_git ''services/api'' (one_service remote_feature_repo)
     = Inr [''origin/main'', ''origin/feature/login'']
   \<and> trace (snd (createFeatureBranch sim_git ''api'' ''login'' (init (one_service remote_feature_repo))))
     = [FsAccess ''services/api'', GitStatus ''services/api'', GitStatus ''services/api'',
        GitStatus ''services/api'', GitSymbolicRef ''services/api'',
        GitFetch ''services/api'' ''origin'', GitPull ''services/api'' ''origin'' ''main'',
        GitBranchLocal ''services/api'', GitBranchR ''services/api'']
   \<and> world (snd (createFeatureBranch sim_git ''api'' ''login'' (init (one_service remote_feature_repo))))
     = one_service remote_feature_repo
   \<and> git_branchLocal sim_git ''services/api'' (one_service remote_feature_repo) = Inr [''main'']
   \<and> (Warning, ''Feature branch '' @ [CHR 0x27] @ ''feature/login'' @ [CHR 0x27] @ '' exists on remote'')
       \<in> set (out (snd (createFeatureBranch sim_git ''api'' ''login''
                           (init (one_service remote_feature_repo)))))
   \<and> last (out (snd (createFeatureBranch sim_git ''api'' ''login''
                           (init (one_service remote_feature_repo)))))
     = (SpinFail, ''Failed to checkout remote branch'')"
  by (simp add: feature_defs sim_defs remote_feature_repo_def)

section \<open>Syncing every submodule\<close>

lemmas sync_defs = syncSubmodules_def syncSetup_def syncFinish_def syncEntry_def syncSubmodule_def syncBranch_def
  syncDetached_def updateParent_def parentFailed_def showSummary_def showStatus_def nextSteps_def
  getSubmodules_def initSubmodules_def getSubmoduleStatus_def hasUncommittedChanges_def
  getCurrentBranch_def getDefaultBranch_def add_def commit_def stash_def fetch_def pull_def
  checkout_def query_def exec_def emit_def emits_def Let_def

lemma getDefaultBranch_rejected:
  "fst (getDefaultBranch G dir s) = Inl e \<Longrightarrow> query_rejected G e (snd (getDefaultBranch G dir s))"
  by (simp add: getDefaultBranch_def query_def query_rejected_def split: sum.splits)

lemma getCurrentBranch_rejected:
  "fst (getCurrentBranch G dir s) = Inl e \<Longrightarrow> query_rejected G e (snd (getCurrentBranch G dir s))"
  by (simp add: getCurrentBranch_def query_def query_rejected_def split: sum.splits)

lemma hasUncommittedChanges_rejected:
  "fst (hasUncommittedChanges G dir s) = Inl e \<Longrightarrow> query_rejected G e (snd (hasUncommittedChanges G dir s))"
  by (simp add: hasUncommittedChanges_def query_def query_rejected_def split: sum.splits)

lemma syncDetached_rejected:
  assumes "fst (syncDetached G p n s) = Inl e"
  shows "query_rejected G e (snd (syncDetached G p n s))"
proof (cases "getDefaultBranch G p s")
  case (Pair r s1)
  show ?thesis
  proof (cases r)
    case (Inl e')
    with Pair assms getDefaultBranch_rejected [of G p s e'] show ?thesis
      by (simp add: syncDetached_def)
  next
    case (Inr d)
    with Pair assms show ?thesis
      by (simp add: syncDetached_def checkout_def pull_def exec_eq Let_def split: option.splits if_splits)
  qed
qed

lemma syncBranch_rejected:
  assumes "fst (syncBranch G p n s) = Inl e"
  shows "query_rejected G e (snd (syncBranch G p n s))"
proof (cases "getCurrentBranch G p s")
  case (Pair r s1)
  show ?thesis
  proof (cases r)
    case (Inl e')
    with Pair assms getCurrentBranch_rejected [of G p s e'] show ?thesis
      by (simp add: syncBranch_def)
  next
    case (Inr cur)
    let ?s3 = "emit SpinStart ''Fetching latest changes...''
        (emit Item (''Current branch: '' @ (case cur of None \<Rightarrow> ''detached'' | Some b \<Rightarrow> b)) s1)"
    obtain r4 s4 where f: "fetch G p ''origin'' ?s3 = (r4, s4)" by force
    show ?thesis
    proof (cases r4)
      case (Some x)
      with Pair Inr f assms show ?thesis by (simp add: syncBranch_def)
    next
      case None
      let ?s5 = "emit SpinSucceed ''Fetched latest changes'' s4"
      show ?thesis
      proof (cases "cur = None \<or> cur = Some ''HEAD''")
        case True
        then have "syncBranch G p n s = syncDetached G p n ?s5"
          using Pair Inr f None by (auto simp: syncBranch_def)
        with assms syncDetached_rejected [of G p n ?s5 e] show ?thesis by simp
      next
        case False
        then obtain b where "cur = Some b" "b \<noteq> ''HEAD''" by (cases cur) auto
        with Pair Inr f None assms show ?thesis
          by (simp add: syncBranch_def pull_def exec_eq Let_def split: option.splits if_splits)
      qed
    qed
  qed
qed

lemma syncSubmodule_rejected:
  assumes "fst (syncSubmodule G p n force s) = Inl e"
  shows "query_rejected G e (snd (syncSubmodule G p n force s))"
proof -
  let ?s1 = "emit Item (''Path: '' @ p) (emit Section (''Syncing submodule: '' @ n) s)"
  obtain r2 s2 where a: "query (FsAccess p) (fs_access G p) ?s1 = (r2, s2)" by force
  show ?thesis
  proof (cases r2)
    case False
    with a assms show ?thesis by (simp add: syncSubmodule_def)
  next
    case True
    obtain r3 s3 where h: "hasUncommittedChanges G p s2 = (r3, s3)" by force
    show ?thesis
    proof (cases r3)
      case (Inl e')
      with a True h assms hasUncommittedChanges_rejected [of G p s2 e'] show ?thesis
        by (simp add: syncSubmodule_def)
    next
      case (Inr hasChanges)
      show ?thesis
      proof (cases "hasChanges")
        case False
        with a True h Inr assms syncBranch_rejected [of G p n s3 e] show ?thesis
          by (simp add: syncSubmodule_def)
      next
        case dirty: True
        show ?thesis
        proof (cases force)
          case False
          with a True h Inr dirty assms show ?thesis by (simp add: syncSubmodule_def)
        next
          case forced: True
          let ?s5 = "emit SpinStart ''Force update enabled, stashing changes...''
               (emit Warning (''Uncommitted changes detected in '' @ n) s3)"
          obtain now s6 where d: "query DateNow (date_now_iso G) ?s5 = (now, s6)" by force
          obtain r7 s7 where st: "stash G (''Auto-stash before sync '' @ now) p s6 = (r7, s7)" by force
          show ?thesis
          proof (cases r7)
            case (Some x)
            with a True h Inr dirty forced d st assms show ?thesis by (simp add: syncSubmodule_def)
          next
            case None
            with a True h Inr dirty forced d st assms
              syncBranch_rejected [of G p n "emit SpinSucceed ''Changes stashed'' s7" e]
            show ?thesis by (simp add: syncSubmodule_def)
          qed
        qed
      qed
    qed
  qed
qed

lemma syncEntry_rejected:
  "fst (syncEntry G submodule force s) = Inl e \<Longrightarrow> query_rejected G e (snd (syncEntry G submodule force s))"
  using syncSubmodule_rejected [of G _ "sm_name submodule" force s e]
  by (simp add: syncEntry_def split: option.splits)

lemma syncEach_rejected:
  "fst (syncEach G force submodules results s) = Inl e
     \<Longrightarrow> query_rejected G e (snd (syncEach G force submodules results s))"
proof (induction submodules arbitrary: results s)
  case Nil
  then show ?case by simp
next
  case (Cons submodule rest)
  obtain r s' where 1: "syncEntry G submodule force s = (r, s')" by force
  show ?case
  proof (cases r)
    case (Inl e')
    with 1 Cons.prems syncEntry_rejected [of G submodule force s e'] show ?thesis by simp
  next
    case (Inr ok)
    with 1 Cons.prems Cons.IH show ?thesis by simp
  qed
qed

lemma showStatus_out: "\<exists>after. out (showStatus G s) = out s @ after"
  by (simp add: showStatus_def getSubmoduleStatus_def query_def emit_def emits_def split: sum.splits)

lemma world_syncSetup:
  "world (syncSetup G s) = snd (git_submoduleInit G (world s))"
  by (simp add: syncSetup_def initSubmodules_def exec_eq emit_def Let_def split: option.splits)

lemma syncSubmodules_loop:
  assumes "fs_access G ''.gitmodules'' (world s)"
    and "gitmodules_entries G (snd (git_submoduleInit G (world s))) = submodules"
    and "submodules \<noteq> []"
  shows "\<exists>s4. world s4 = snd (git_submoduleInit G (world s)) \<and> syncSubmodules G force s =
           (case syncEach G force submodules [] s4 of
              (Inl e, s5) \<Rightarrow> (Rejected e, s5)
            | (Inr results, s5) \<Rightarrow> (Completed results, syncFinish G results s5))"
proof (cases force)
  case True
  with assms show ?thesis
    apply (simp add: syncSubmodules_def getSubmodules_def query_def world_syncSetup emit_def Let_def)
    apply (rule exI, rule conjI)
     prefer 2
     apply (rule refl)
    apply (simp add: world_syncSetup)
    done
next
  case False
  with assms show ?thesis
    apply (simp add: syncSubmodules_def getSubmodules_def query_def world_syncSetup emit_def Let_def)
    apply (rule exI, rule conjI)
     prefer 2
     apply (rule refl)
    apply (simp add: world_syncSetup)
    done
qed


lemma syncFinish_out:
  "\<exists>before after. out (syncFinish G results s) = before @ (Section, ''Summary'') # map summaryLine results @ after"
proof -
  let ?s10 = "updateParent G (emit Section ''Updating submodule references in parent repo'' s)"
  from showStatus_out [of G "showSummary results ?s10"] obtain after where
    "out (showStatus G (showSummary results ?s10)) = out (showSummary results ?s10) @ after"
    by blast
  then have "out (syncFinish G results s)
      = out ?s10 @ (Section, ''Summary'') # map summaryLine results @ (after @ nextSteps)"
    by (simp add: syncFinish_def emits_def showSummary_def emit_def)
  then show ?thesis by blast
qed

lemma syncEach_processed:
  "syncEach G force submodules acc s = (Inr rs, t)
     \<Longrightarrow> \<exists>results. rs = acc @ results \<and> processed G force submodules results s t"
proof (induction submodules arbitrary: acc s)
  case Nil
  then show ?case by simp
next
  case (Cons submodule rest)
  obtain r s' where 1: "syncEntry G submodule force s = (r, s')" by force
  show ?case
  proof (cases r)
    case (Inl e)
    with 1 Cons.prems show ?thesis by simp
  next
    case (Inr ok)
    let ?entry = "\<lparr>res_name = sm_name submodule, res_path = sm_path submodule, success = ok\<rparr>"
    from 1 Inr Cons.prems have "syncEach G force rest (acc @ [?entry]) s' = (Inr rs, t)" by simp
    from Cons.IH [OF this] obtain results where
      2: "rs = (acc @ [?entry]) @ results" and 3: "processed G force rest results s' t"
      by blast
    have "rs = acc @ (?entry # results)" using 2 by simp
    moreover have "processed G force (submodule # rest) (?entry # results) s t"
      using 1 Inr 3 by simp
    ultimately show ?thesis by blast
  qed
qed

lemma processed_entries:
  "processed G force submodules results s t
     \<Longrightarrow> map res_name results = map sm_name submodules
       \<and> map res_path results = map sm_path submodules"
proof (induction submodules arbitrary: results s)
  case Nil
  then show ?case by (cases results) simp_all
next
  case (Cons submodule rest)
  then show ?case
    by (cases results) (auto split: prod.splits sum.splits)
qed

text \<open>
  C2. With \<open>.gitmodules\<close> present and a registry that is not empty, a run of
  \<open>syncSubmodules\<close> ends in one of two ways. Either it completes: the loop has gone
  through the whole registry in order, handing each submodule to \<open>syncSubmodule\<close> in the
  state its predecessor left, whatever the predecessor returned; \<open>results\<close> holds exactly
  one entry per submodule, with its name, its path and, as \<open>success\<close>, the boolean
  returned for it; and the output has the \<open>Summary\<close> section with one line per entry,
  the check mark for \<open>success\<close> and the cross with \<open>(failed)\<close> otherwise. Or it is rejected,
  and then the last call made was a \<open>status\<close> query or the branch listing of
  \<open>getDefaultBranch\<close>, and that query failed: the only way the loop is left early. So a
  stash, fetch, checkout or pull that fails in one repository is recorded as
  \<open>success = false\<close> and never ends the run.
\<close>

theorem syncSubmodules_one_result_each:
  assumes "fs_access G ''.gitmodules'' (world s)"
    and "gitmodules_entries G (snd (git_submoduleInit G (world s))) = submodules"
    and "submodules \<noteq> []"
  shows "(\<exists>results s4 s5. fst (syncSubmodules G force s) = Completed results
            \<and> world s4 = snd (git_submoduleInit G (world s))
            \<and> processed G force submodules results s4 s5
            \<and> snd (syncSubmodules G force s) = syncFinish G results s5
            \<and> map res_name results = map sm_name submodules
            \<and> map res_path results = map sm_path submodules
            \<and> (\<exists>before after. out (snd (syncSubmodules G force s))
                  = before @ (Section, ''Summary'') # map summaryLine results @ after))
       \<or> (\<exists>e. fst (syncSubmodules G force s) = Rejected e
            \<and> query_rejected G e (snd (syncSubmodules G force s)))"
proof -
  from syncSubmodules_loop [OF assms, of force] obtain s4 where
    0: "world s4 = snd (git_submoduleInit G (world s))" and
    1: "syncSubmodules G force s =
           (case syncEach G force submodules [] s4 of
              (Inl e, s5) \<Rightarrow> (Rejected e, s5)
            | (Inr results, s5) \<Rightarrow> (Completed results, syncFinish G results s5))"
    by blast
  obtain r s5 where 2: "syncEach G force submodules [] s4 = (r, s5)" by force
  show ?thesis
  proof (cases r)
    case (Inl e)
    with 1 2 syncEach_rejected [of G force submodules "[]" s4 e] show ?thesis by simp
  next
    case (Inr results)
    from syncEach_processed [of G force submodules "[]" s4 results s5] 2 Inr
    have 3: "processed G force submodules results s4 s5" by simp
    from 1 2 Inr have 4: "fst (syncSubmodules G force s) = Completed results"
      and 5: "snd (syncSubmodules G force s) = syncFinish G results s5" by simp_all
    from syncFinish_out [of G results s5] 5
    have 6: "\<exists>before after. out (snd (syncSubmodules G force s))
                  = before @ (Section, ''Summary'') # map summaryLine results @ after" by simp
    from 0 3 4 5 6 processed_entries [OF 3] show ?thesis by blast
  qed
qed

text \<open>
  Two repositories, the remote of the first unreachable: the fetch of the first fails,
  it is recorded as failed, and the second is fetched, pulled and recorded as synced.
\<close>

theorem syncSubmodules_one_result_each_witness:
  "fs_access sim_git ''.gitmodules'' (world (init two_services))
   \<and> gitmodules_entries sim_git (snd (git_submoduleInit sim_git (world (init two_services))))
       = registered two_services
   \<and> registered two_services \<noteq> []
   \<and> fst (syncSubmodules sim_git False (init two_services))
       = Completed [\<lparr>res_name = ''services/api'', res_path = Some ''services/api'', success = False\<rparr>,
                    \<lparr>res_name = ''services/web'', res_path = Some ''services/web'', success = True\<rparr>]
   \<and> filter mutating (trace (snd (syncSubmodules sim_git False (init two_services))))
       = [GitSubmoduleInit, GitFetch ''services/api'' ''origin'',
          GitFetch ''services/web'' ''origin'', GitPull ''services/web'' ''origin'' ''main'',
          GitAdd ''.'' ''.'']
   \<and> (\<exists>before after. out (snd (syncSubmodules sim_git False (init two_services)))
          = before @ [(Section, ''Summary''), (Item, ''[cross] services/api (failed)''),
                      (Item, ''[check] services/web'')] @ after)"
proof -
  have a: "fs_access sim_git ''.gitmodules'' (world (init two_services))"
    by (simp add: sim_defs two_services_def)
  have b: "gitmodules_entries sim_git (snd (git_submoduleInit sim_git (world (init two_services))))
           = registered two_services"
    by (simp add: sim_defs)
  have c: "registered two_services \<noteq> []"
    by (simp add: two_services_def)
  have d: "fst (syncSubmodules sim_git False (init two_services))
     = Completed [\<lparr>res_name = ''services/api'', res_path = Some ''services/api'', success = False\<rparr>,
                  \<lparr>res_name = ''services/web'', res_path = Some ''services/web'', success = True\<rparr>]"
    by (simp add: sync_defs sim_defs two_services_def trim_def is_space_def)
  have t: "filter mutating (trace (snd (syncSubmodules sim_git False (init two_services))))
       = [GitSubmoduleInit, GitFetch ''services/api'' ''origin'',
          GitFetch ''services/web'' ''origin'', GitPull ''services/web'' ''origin'' ''main'',
          GitAdd ''.'' ''.'']"
    by (simp add: sync_defs sim_defs two_services_def trim_def is_space_def)
  have "\<exists>before after. out (snd (syncSubmodules sim_git False (init two_services)))
          = before @ (Section, ''Summary'')
              # map summaryLine
                  [\<lparr>res_name = ''services/api'', res_path = Some ''services/api'', success = False\<rparr>,
                   \<lparr>res_name = ''services/web'', res_path = Some ''services/web'', success = True\<rparr>]
              @ after"
    using syncSubmodules_one_result_each [OF a b c, of False] d by auto
  then have e: "\<exists>before after. out (snd (syncSubmodules sim_git False (init two_services)))
          = before @ [(Section, ''Summary''), (Item, ''[cross] services/api (failed)''),
                      (Item, ''[check] services/web'')] @ after"
    by (simp add: summaryLine_def icon_check_def icon_cross_def)
  show ?thesis
    using a b c d t e by blast
qed

text \<open>
  The outcome recorded per repository is the boolean only. A repository skipped for its
  uncommitted changes and a repository whose fetch failed leave the same entry in
  \<open>results\<close> and the same line, with \<open>(failed)\<close>, in the summary; they differ in the
  messages printed while the repository was processed.
\<close>

theorem syncSubmodules_skipped_as_failed:
  "fst (syncSubmodules sim_git False (init (one_service dirty_repo)))
     = Completed [\<lparr>res_name = ''services/api'', res_path = Some ''services/api'', success = False\<rparr>]
   \<and> fst (syncSubmodules sim_git False (init offline))
     = Completed [\<lparr>res_name = ''services/api'', res_path = Some ''services/api'', success = False\<rparr>]
   \<and> (Warning, ''Skipping services/api...'')
       \<in> set (out (snd (syncSubmodules sim_git False (init (one_service dirty_repo)))))
   \<and> (SpinFail, ''Failed to fetch changes'')
       \<in> set (out (snd (syncSubmodules sim_git False (init offline))))
   \<and> (Item, ''[cross] services/api (failed)'')
       \<in> set (out (snd (syncSubmodules sim_git False (init (one_service dirty_repo)))))
   \<and> (Item, ''[cross] services/api (failed)'')
       \<in> set (out (snd (syncSubmodules sim_git False (init offline))))"
  by (simp add: sync_defs sim_defs dirty_repo_def offline_def summaryLine_def icon_cross_def
      trim_def is_space_def)

text \<open>
  The run that is cut short: the directory of \<open>services/api\<close> is there, but \<open>git status\<close>
  fails in it. \<open>hasUncommittedChanges\<close> is awaited outside every \<open>try\<close>, so the rejection
  leaves \<open>syncSubmodule\<close> and the loop; \<open>services/web\<close> is not reached and no summary is
  printed.
\<close>

lemma syncSubmodules_rejects:
  "fst (syncSubmodules sim_git False (init broken_api)) = Rejected not_a_repo
   \<and> filter mutating (trace (snd (syncSubmodules sim_git False (init broken_api)))) = [GitSubmoduleInit]
   \<and> last (trace (snd (syncSubmodules sim_git False (init broken_api)))) = GitStatus ''services/api''
   \<and> (Section, ''Summary'') \<notin> set (out (snd (syncSubmodules sim_git False (init broken_api))))"
  by (simp add: sync_defs sim_defs broken_api_def two_services_def)

section \<open>The parent repository\<close>

lemmas parent_defs = updateParent_def parentFailed_def add_def hasUncommittedChanges_def
  query_def exec_eq emit_def

text \<open>
  The parent-side step for any adapter. The one call of \<open>updateParent\<close> that can change
  anything is \<open>git add .\<close> at the parent root, whatever has changed there. When the add
  succeeds and the parent then has uncommitted changes, the step ends in the error
  \<open>Failed to update parent repo\<close> with the \<open>TypeError\<close> printed; the operator is not asked
  and nothing is committed.
\<close>

lemma updateParent_calls:
  "filter mutating (trace (updateParent G s)) = filter mutating (trace s) @ [GitAdd ''.'' ''.'']
   \<and> world (updateParent G s) = snd (git_add G ''.'' ''.'' (world s))"
  by (simp add: parent_defs split: option.splits sum.splits)

lemma updateParent_fails:
  assumes "git_add G ''.'' ''.'' (world s) = (None, w1)"
    and "git_status G ''.'' w1 = Inr status"
    and "\<not> isClean status"
  shows "trace (updateParent G s) = trace s @ [GitAdd ''.'' ''.'', GitStatus ''.'']
       \<and> out (updateParent G s)
           = out s @ [(Info, ''Changes detected in parent repo:''),
                      (Error, ''Failed to update parent repo''),
                      (Print, noGit ''status'')]"
  using assms by (simp add: parent_defs)

text \<open>
  C3. Two submodules, of which only \<open>services/web\<close> has moved, a parent with an edited
  \<open>README.md\<close>, and an operator who would confirm the commit. After both submodules are
  synced, \<open>git add .\<close> stages the README next to the pointer of \<open>services/web\<close>. The
  parent now has changes, and the next statement, \<open>gitHelpers.git.status\<close>, throws: the
  run reports \<open>Failed to update parent repo\<close>, the operator is never asked, and the
  parent is left with both paths staged and no commit, so no commit message exists.
\<close>

theorem syncSubmodules_stages_without_commit:
  "fst (syncSubmodules sim_git False (init moved_web))
     = Completed [\<lparr>res_name = ''services/api'', res_path = Some ''services/api'', success = True\<rparr>,
                  \<lparr>res_name = ''services/web'', res_path = Some ''services/web'', success = True\<rparr>]
   \<and> sim_read ''.'' modified moved_web = Inr [''services/web'', ''README.md'']
   \<and> sim_read ''.'' staged (world (snd (syncSubmodules sim_git False (init moved_web))))
     = Inr [''services/web'', ''README.md'']
   \<and> sim_read ''.'' commits (world (snd (syncSubmodules sim_git False (init moved_web)))) = Inr []
   \<and> answers (world (snd (syncSubmodules sim_git False (init moved_web)))) = [True]
   \<and> filter mutating (trace (snd (syncSubmodules sim_git False (init moved_web))))
     = [GitSubmoduleInit,
        GitFetch ''services/api'' ''origin'', GitPull ''services/api'' ''origin'' ''main'',
        GitFetch ''services/web'' ''origin'', GitPull ''services/web'' ''origin'' ''main'',
        GitAdd ''.'' ''.'']
   \<and> take 3 (drop 25 (out (snd (syncSubmodules sim_git False (init moved_web)))))
     = [(Info, ''Changes detected in parent repo:''),
        (Error, ''Failed to update parent repo''),
        (Print, noGit ''status'')]"
  by (simp add: sync_defs sim_defs two_services_def moved_web_def trim_def is_space_def)

section \<open>The pull request of a service\<close>

lemma createLinkPR_lookup:
  assumes st: "git_status G (servicePathOf serviceName) (world s) = Inr status"
    and cu: "current status = Some branch" "branch \<noteq> []"
    and de: "fst (getDefaultBranch G (servicePathOf serviceName) (init (world s))) = Inr defaultBranch"
    and ne: "branch \<noteq> defaultBranch"
    and ah: "git_ahead G (servicePathOf serviceName) defaultBranch (world s) = Inr n" "n \<noteq> 0"
    and pu: "git_push G (servicePathOf serviceName) True branch (world s) = (None, w1)"
  shows "\<exists>s4. world s4 = w1
           \<and> filter mutating (trace s4) = filter mutating (trace s) @ [GitPush (servicePathOf serviceName) True branch]
           \<and> createLinkPR G serviceName draft s =
               (case getPRForBranch G branch (servicePathOf serviceName) s4 of
                  (Some pr, s5) \<Rightarrow> (Inr pr, s5)
                | (None, s5) \<Rightarrow>
                    (case createPR G (prTitle serviceName branch) (prBody serviceName branch)
                            (Some defaultBranch) draft (servicePathOf serviceName) s5 of
                       (Inl e, s6) \<Rightarrow> (Inl (AdapterFailed e), s6)
                     | (Inr pr, s6) \<Rightarrow> (Inr pr, s6)))"
proof -
  let ?p = "servicePathOf serviceName"
  let ?s1 = "s\<lparr>trace := trace s @ [GitStatus ?p]\<rparr>"
  have 1: "getCurrentBranch G ?p s = (Inr (Some branch), ?s1)"
    using st cu by (simp add: getCurrentBranch_def query_def)
  obtain s2 where 2: "getDefaultBranch G ?p ?s1 = (Inr defaultBranch, s2)"
    using de getDefaultBranch_fst [of G ?p ?s1] by (cases "getDefaultBranch G ?p ?s1") simp
  have w2: "world s2 = world s"
    using getDefaultBranch_world [of G ?p ?s1] 2 by simp
  have m2: "filter mutating (trace s2) = filter mutating (trace s)"
    using getDefaultBranch_mutating [of G ?p ?s1] 2 by simp
  show ?thesis
    using 1 2 w2 m2 ne ah pu cu
    apply (simp add: createLinkPR_def push_def query_def exec_eq Let_def)
    apply (rule exI, intro conjI)
      prefer 3
      apply (rule refl)
     apply simp_all
    done
qed

lemmas host_defs = sim_pr_list_def sim_pr_create_def sim_json_def sim_pr_json_def sim_pr_url_def

subsection \<open>What \<open>createPR\<close> reads from the output of \<open>gh\<close>\<close>

lemma takeWhile_all:
  assumes "\<forall>x \<in> set xs. P x" and "ys = [] \<or> \<not> P (hd ys)"
  shows "takeWhile P (xs @ ys) = xs"
  using assms by (cases ys) simp_all

text \<open>
  The URL is the first \<open>https://\<close> with what follows it up to the next white space, and
  the number is the run of digits behind the first \<open>#\<close>; text in front of either is
  skipped, and output without them gives \<open>undefined\<close>.
\<close>

lemma match_url_finds:
  assumes "CHR ''h'' \<notin> set pre" and "rest \<noteq> []" and "\<forall>c \<in> set rest. \<not> is_space c"
    and "post = [] \<or> is_space (hd post)"
  shows "match_url (pre @ ''https://'' @ rest @ post) = Some (''https://'' @ rest)"
  using assms(1)
proof (induction pre)
  case Nil
  have "takeWhile (\<lambda>x. \<not> is_space x) (rest @ post) = rest"
    using assms(3,4) by (intro takeWhile_all) simp_all
  with assms(2) show ?case by simp
next
  case (Cons c pre)
  then have "c \<noteq> CHR ''h''" by auto
  with Cons show ?case by simp
qed

lemma match_url_none: "CHR ''h'' \<notin> set s \<Longrightarrow> match_url s = None"
proof (induction s)
  case Nil
  then show ?case by simp
next
  case (Cons c s)
  then have "c \<noteq> CHR ''h''" by auto
  with Cons show ?case by simp
qed

lemma match_number_finds:
  assumes "CHR ''#'' \<notin> set pre" and "ds \<noteq> []" and "\<forall>c \<in> set ds. is_digit c"
    and "post = [] \<or> \<not> is_digit (hd post)"
  shows "match_number (pre @ CHR ''#'' # ds @ post) = Some ds"
  using assms(1)
proof (induction pre)
  case Nil
  have "takeWhile is_digit (ds @ post) = ds"
    using assms(3,4) by (intro takeWhile_all) simp_all
  with assms(2) show ?case by simp
next
  case (Cons c pre)
  then have "c \<noteq> CHR ''#''" by auto
  with Cons show ?case by simp
qed

lemma match_number_none: "CHR ''#'' \<notin> set s \<Longrightarrow> match_number s = None"
proof (induction s)
  case Nil
  then show ?case by simp
next
  case (Cons c s)
  then have "c \<noteq> CHR ''#''" by auto
  with Cons show ?case by simp
qed

text \<open>
  \<open>gh pr create\<close> prints the URL of the new pull request and nothing else; \<open>createPR\<close>
  then returns the URL without a number. The examples after it are that output, and a
  line that names the number as well.
\<close>

lemma createPR_reads:
  "fst (createPR G title body base draft dir s) = Inr pr
     \<Longrightarrow> fst (gh_pr_create G dir
                ([''pr'', ''create'', ''--title'', title, ''--body'', body]
                   @ (case base of None \<Rightarrow> [] | Some b \<Rightarrow> if b \<noteq> [] then [''--base'', b] else [])
                   @ (if draft then [''--draft''] else [])) (world s))
           = Inr ''https://github.com/org/api/pull/7''
     \<Longrightarrow> pr = \<lparr>pr_number = None, pr_url = Some ''https://github.com/org/api/pull/7''\<rparr>"
  by (simp add: createPR_def exec_eq Let_def is_space_def split: sum.splits)

lemma match_examples:
  "match_url ''https://github.com/org/api/pull/7'' = Some ''https://github.com/org/api/pull/7''
   \<and> match_number ''https://github.com/org/api/pull/7'' = None
   \<and> match_url (''Created pull request #12: https://github.com/org/api/pull/12'' @ [CHR 0x0A] @ ''done'')
       = Some ''https://github.com/org/api/pull/12''
   \<and> match_number (''Created pull request #12: https://github.com/org/api/pull/12'' @ [CHR 0x0A] @ ''done'')
       = Some ''12''
   \<and> match_url ''no link here'' = None
   \<and> match_number ''issue # 12'' = None"
  by (simp add: is_space_def is_digit_def)

subsection \<open>One call\<close>

text \<open>
  \<open>createLinkPR\<close> on a feature branch that has commits of its own and has been pushed.
  When \<open>gh pr list --head\<close> shows an open pull request for the branch, that pull request
  is the result, as \<open>getPRForBranch\<close> read it; the push is the only call that can change
  anything, so no pull request is created and the hosting side stays as it is. When it
  shows none, \<open>gh pr create\<close> is called once and the result is read from what it prints.
\<close>

lemma createLinkPR_once:
  assumes "git_status G (servicePathOf serviceName) (world s) = Inr status"
    and "current status = Some branch" and "branch \<noteq> []"
    and "fst (getDefaultBranch G (servicePathOf serviceName) (init (world s))) = Inr defaultBranch"
    and "branch \<noteq> defaultBranch"
    and "git_ahead G (servicePathOf serviceName) defaultBranch (world s) = Inr n" and "n \<noteq> 0"
    and "git_push G (servicePathOf serviceName) True branch (world s) = (None, w1)"
  shows "(gh_pr_list_head G (servicePathOf serviceName) branch w1 = Inr stdout \<and> stdout \<noteq> []
            \<and> json_parse G stdout = Some pr \<longrightarrow>
            fst (createLinkPR G serviceName draft s) = Inr pr
            \<and> world (snd (createLinkPR G serviceName draft s)) = w1
            \<and> filter mutating (trace (snd (createLinkPR G serviceName draft s)))
                = filter mutating (trace s) @ [GitPush (servicePathOf serviceName) True branch])
       \<and> (gh_pr_list_head G (servicePathOf serviceName) branch w1 = Inr []
            \<and> gh_pr_create G (servicePathOf serviceName)
                  (createArgs serviceName branch defaultBranch draft) w1 = (Inr printed, w2) \<longrightarrow>
            fst (createLinkPR G serviceName draft s)
                = Inr \<lparr>pr_number = match_number printed, pr_url = match_url printed\<rparr>
            \<and> world (snd (createLinkPR G serviceName draft s)) = w2
            \<and> filter mutating (trace (snd (createLinkPR G serviceName draft s)))
                = filter mutating (trace s) @
                    [GitPush (servicePathOf serviceName) True branch,
                     GhPrCreate (servicePathOf serviceName)
                       (createArgs serviceName branch defaultBranch draft)])"
proof -
  from createLinkPR_lookup [OF assms, of draft] obtain s4 where
    w: "world s4 = w1"
    and m: "filter mutating (trace s4)
              = filter mutating (trace s) @ [GitPush (servicePathOf serviceName) True branch]"
    and e: "createLinkPR G serviceName draft s =
               (case getPRForBranch G branch (servicePathOf serviceName) s4 of
                  (Some pr, s5) \<Rightarrow> (Inr pr, s5)
                | (None, s5) \<Rightarrow>
                    (case createPR G (prTitle serviceName branch) (prBody serviceName branch)
                            (Some defaultBranch) draft (servicePathOf serviceName) s5 of
                       (Inl e, s6) \<Rightarrow> (Inl (AdapterFailed e), s6)
                     | (Inr pr, s6) \<Rightarrow> (Inr pr, s6)))"
    by blast
  show ?thesis
    using w m
    by (simp add: e getPRForBranch_def createPR_def createArgs_def query_def exec_eq Let_def)
qed

subsection \<open>Two calls\<close>

text \<open>
  C9. \<open>createLinkPR\<close> called twice in a row on a feature branch that has commits of its
  own: the second call starts in the state the first one left, \<open>w2\<close> being the world of
  that state, and the branch is the same and still ahead of the default branch there.
  A pull request is named by the repository and the head branch it belongs to, and
  referred to by its URL.

  When the hosting side has an open pull request for the branch at the first call and
  lists the same one at the second, both calls return that pull request, the same
  record, and the two pushes are the only calls that can change anything: nothing is
  created.

  When it has none at the first call, the first call runs \<open>gh pr create\<close> once and
  returns the URL that \<open>gh\<close> prints. The second call asks for the pull request of the
  head branch, and with the hosting side listing there the pull request whose URL was
  printed, it returns that one: the two results carry the same URL, and \<open>gh pr create\<close>
  has been run once over both calls, not twice.
\<close>

theorem createLinkPR_twice:
  assumes "git_status G (servicePathOf serviceName) (world s) = Inr status"
    and "current status = Some branch" and "branch \<noteq> []"
    and "fst (getDefaultBranch G (servicePathOf serviceName) (init (world s))) = Inr defaultBranch"
    and "branch \<noteq> defaultBranch"
    and "git_ahead G (servicePathOf serviceName) defaultBranch (world s) = Inr n" and "n \<noteq> 0"
    and "git_push G (servicePathOf serviceName) True branch (world s) = (None, w1)"
    and "git_status G (servicePathOf serviceName) w2 = Inr status2"
    and "current status2 = Some branch"
    and "fst (getDefaultBranch G (servicePathOf serviceName) (init w2)) = Inr defaultBranch"
    and "git_ahead G (servicePathOf serviceName) defaultBranch w2 = Inr n2" and "n2 \<noteq> 0"
    and "git_push G (servicePathOf serviceName) True branch w2 = (None, w3)"
  shows "(gh_pr_list_head G (servicePathOf serviceName) branch w1 = Inr stdout \<and> stdout \<noteq> []
            \<and> json_parse G stdout = Some pr \<and> w2 = w1
            \<and> gh_pr_list_head G (servicePathOf serviceName) branch w3 = Inr stdout \<longrightarrow>
            fst (createLinkPR G serviceName draft s) = Inr pr
            \<and> fst (createLinkPR G serviceName draft (snd (createLinkPR G serviceName draft s))) = Inr pr
            \<and> world (snd (createLinkPR G serviceName draft (snd (createLinkPR G serviceName draft s)))) = w3
            \<and> filter mutating
                 (trace (snd (createLinkPR G serviceName draft (snd (createLinkPR G serviceName draft s)))))
                = filter mutating (trace s) @
                    [GitPush (servicePathOf serviceName) True branch,
                     GitPush (servicePathOf serviceName) True branch])
       \<and> (gh_pr_list_head G (servicePathOf serviceName) branch w1 = Inr []
            \<and> gh_pr_create G (servicePathOf serviceName)
                  (createArgs serviceName branch defaultBranch draft) w1 = (Inr printed, w2)
            \<and> printed = pre @ ''https://'' @ rest @ post
            \<and> CHR ''h'' \<notin> set pre \<and> rest \<noteq> [] \<and> (\<forall>c \<in> set rest. \<not> is_space c)
            \<and> (post = [] \<or> is_space (hd post))
            \<and> gh_pr_list_head G (servicePathOf serviceName) branch w3 = Inr stdout2 \<and> stdout2 \<noteq> []
            \<and> json_parse G stdout2 = Some pr2 \<and> pr_url pr2 = Some (''https://'' @ rest) \<longrightarrow>
            fst (createLinkPR G serviceName draft s)
                = Inr \<lparr>pr_number = match_number printed, pr_url = Some (''https://'' @ rest)\<rparr>
            \<and> fst (createLinkPR G serviceName draft (snd (createLinkPR G serviceName draft s))) = Inr pr2
            \<and> pr_url pr2 = Some (''https://'' @ rest)
            \<and> world (snd (createLinkPR G serviceName draft (snd (createLinkPR G serviceName draft s)))) = w3
            \<and> filter mutating
                 (trace (snd (createLinkPR G serviceName draft (snd (createLinkPR G serviceName draft s)))))
                = filter mutating (trace s) @
                    [GitPush (servicePathOf serviceName) True branch,
                     GhPrCreate (servicePathOf serviceName)
                       (createArgs serviceName branch defaultBranch draft),
                     GitPush (servicePathOf serviceName) True branch])"
proof (intro conjI impI)
  let ?p = "servicePathOf serviceName"
  let ?s' = "snd (createLinkPR G serviceName draft s)"
  assume A: "gh_pr_list_head G ?p branch w1 = Inr stdout \<and> stdout \<noteq> []
            \<and> json_parse G stdout = Some pr \<and> w2 = w1
            \<and> gh_pr_list_head G ?p branch w3 = Inr stdout"
  from A createLinkPR_once [OF assms(1-8), where stdout = stdout and pr = pr and draft = draft]
  have 1: "fst (createLinkPR G serviceName draft s) = Inr pr"
    and 2: "world ?s' = w2"
    and 3: "filter mutating (trace ?s') = filter mutating (trace s) @ [GitPush ?p True branch]"
    by simp_all
  have st: "git_status G ?p (world ?s') = Inr status2"
    and de: "fst (getDefaultBranch G ?p (init (world ?s'))) = Inr defaultBranch"
    and ah: "git_ahead G ?p defaultBranch (world ?s') = Inr n2"
    and pu: "git_push G ?p True branch (world ?s') = (None, w3)"
    using 2 assms(9,11,12,14) by simp_all
  from A createLinkPR_once [OF st assms(10) assms(3) de assms(5) ah assms(13) pu,
      where stdout = stdout and pr = pr and draft = draft]
  have 4: "fst (createLinkPR G serviceName draft ?s') = Inr pr"
    and 5: "world (snd (createLinkPR G serviceName draft ?s')) = w3"
    and 6: "filter mutating (trace (snd (createLinkPR G serviceName draft ?s')))
              = filter mutating (trace ?s') @ [GitPush ?p True branch]"
    by simp_all
  show "fst (createLinkPR G serviceName draft s) = Inr pr" by (rule 1)
  show "fst (createLinkPR G serviceName draft ?s') = Inr pr" by (rule 4)
  show "world (snd (createLinkPR G serviceName draft ?s')) = w3" by (rule 5)
  show "filter mutating (trace (snd (createLinkPR G serviceName draft ?s')))
          = filter mutating (trace s) @ [GitPush ?p True branch, GitPush ?p True branch]"
    using 3 6 by simp
next
  let ?p = "servicePathOf serviceName"
  let ?s' = "snd (createLinkPR G serviceName draft s)"
  assume B: "gh_pr_list_head G ?p branch w1 = Inr []
            \<and> gh_pr_create G ?p (createArgs serviceName branch defaultBranch draft) w1 = (Inr printed, w2)
            \<and> printed = pre @ ''https://'' @ rest @ post
            \<and> CHR ''h'' \<notin> set pre \<and> rest \<noteq> [] \<and> (\<forall>c \<in> set rest. \<not> is_space c)
            \<and> (post = [] \<or> is_space (hd post))
            \<and> gh_pr_list_head G ?p branch w3 = Inr stdout2 \<and> stdout2 \<noteq> []
            \<and> json_parse G stdout2 = Some pr2 \<and> pr_url pr2 = Some (''https://'' @ rest)"
  from B have url: "match_url printed = Some (''https://'' @ rest)"
    using match_url_finds [of pre rest post] by simp
  from B createLinkPR_once [OF assms(1-8), where printed = printed and ?w2.0 = w2 and draft = draft]
  have 1: "fst (createLinkPR G serviceName draft s)
             = Inr \<lparr>pr_number = match_number printed, pr_url = match_url printed\<rparr>"
    and 2: "world ?s' = w2"
    and 3: "filter mutating (trace ?s')
              = filter mutating (trace s) @
                  [GitPush ?p True branch, GhPrCreate ?p (createArgs serviceName branch defaultBranch draft)]"
    by simp_all
  have st: "git_status G ?p (world ?s') = Inr status2"
    and de: "fst (getDefaultBranch G ?p (init (world ?s'))) = Inr defaultBranch"
    and ah: "git_ahead G ?p defaultBranch (world ?s') = Inr n2"
    and pu: "git_push G ?p True branch (world ?s') = (None, w3)"
    using 2 assms(9,11,12,14) by simp_all
  from B createLinkPR_once [OF st assms(10) assms(3) de assms(5) ah assms(13) pu,
      where stdout = stdout2 and pr = pr2 and draft = draft]
  have 4: "fst (createLinkPR G serviceName draft ?s') = Inr pr2"
    and 5: "world (snd (createLinkPR G serviceName draft ?s')) = w3"
    and 6: "filter mutating (trace (snd (createLinkPR G serviceName draft ?s')))
              = filter mutating (trace ?s') @ [GitPush ?p True branch]"
    by simp_all
  show "fst (createLinkPR G serviceName draft s)
          = Inr \<lparr>pr_number = match_number printed, pr_url = Some (''https://'' @ rest)\<rparr>"
    using 1 url by simp
  show "fst (createLinkPR G serviceName draft ?s') = Inr pr2" by (rule 4)
  show "pr_url pr2 = Some (''https://'' @ rest)" using B by simp
  show "world (snd (createLinkPR G serviceName draft ?s')) = w3" by (rule 5)
  show "filter mutating (trace (snd (createLinkPR G serviceName draft ?s')))
          = filter mutating (trace s) @
              [GitPush ?p True branch, GhPrCreate ?p (createArgs serviceName branch defaultBranch draft),
               GitPush ?p True branch]"
    using 3 6 by simp
qed

text \<open>
  Two calls in a row on \<open>feature/login\<close>. With no pull request open, the first call
  opens number 7 and returns its URL, without a number, as \<open>gh\<close> prints the URL alone; the
  second finds number 7 and returns it under the same URL; one pull request exists
  afterwards. With number 7 open from the start, both calls return the same record and
  create nothing.
\<close>

theorem createLinkPR_twice_witness:
  "fst (createLinkPR sim_git ''api'' False (init (one_service feature_repo)))
     = Inr \<lparr>pr_number = None, pr_url = Some ''https://github.com/org/api/pull/7''\<rparr>
   \<and> fst (createLinkPR sim_git ''api'' False
            (snd (createLinkPR sim_git ''api'' False (init (one_service feature_repo)))))
     = Inr \<lparr>pr_number = Some ''7'', pr_url = Some ''https://github.com/org/api/pull/7''\<rparr>
   \<and> world (snd (createLinkPR sim_git ''api'' False
            (snd (createLinkPR sim_git ''api'' False (init (one_service feature_repo))))))
     = (one_service feature_repo)\<lparr>open_prs := [(''feature/login'', ''7'')]\<rparr>
   \<and> filter mutating (trace (snd (createLinkPR sim_git ''api'' False
            (snd (createLinkPR sim_git ''api'' False (init (one_service feature_repo)))))))
     = [GitPush ''services/api'' True ''feature/login'',
        GhPrCreate ''services/api'' (createArgs ''api'' ''feature/login'' ''main'' False),
        GitPush ''services/api'' True ''feature/login'']
   \<and> fst (createLinkPR sim_git ''api'' False
            (init ((one_service feature_repo)\<lparr>open_prs := [(''feature/login'', ''7'')]\<rparr>)))
     = Inr \<lparr>pr_number = Some ''7'', pr_url = Some ''https://github.com/org/api/pull/7''\<rparr>
   \<and> fst (createLinkPR sim_git ''api'' False
            (snd (createLinkPR sim_git ''api'' False
                   (init ((one_service feature_repo)\<lparr>open_prs := [(''feature/login'', ''7'')]\<rparr>)))))
     = Inr \<lparr>pr_number = Some ''7'', pr_url = Some ''https://github.com/org/api/pull/7''\<rparr>
   \<and> filter mutating (trace (snd (createLinkPR sim_git ''api'' False
            (snd (createLinkPR sim_git ''api'' False
                   (init ((one_service feature_repo)\<lparr>open_prs := [(''feature/login'', ''7'')]\<rparr>)))))))
     = [GitPush ''services/api'' True ''feature/login'', GitPush ''services/api'' True ''feature/login'']"
proof -
  let ?W = "one_service feature_repo"
  let ?W' = "(one_service feature_repo)\<lparr>open_prs := [(''feature/login'', ''7'')]\<rparr>"
  let ?p = "servicePathOf ''api''"
  let ?pr = "\<lparr>pr_number = Some ''7'', pr_url = Some ''https://github.com/org/api/pull/7''\<rparr>"
  have st: "git_status sim_git ?p (world (init ?W)) = Inr (sim_status feature_repo)"
    and st': "git_status sim_git ?p (world (init ?W')) = Inr (sim_status feature_repo)"
    and st2: "git_status sim_git ?p ?W' = Inr (sim_status feature_repo)"
    and cu: "current (sim_status feature_repo) = Some ''feature/login''"
    and nb: "''feature/login'' \<noteq> []"
    and ne: "''feature/login'' \<noteq> ''main''"
    and n1: "(1::nat) \<noteq> 0"
    by (simp_all add: sim_defs servicePathOf_def feature_repo_def)
  have de: "fst (getDefaultBranch sim_git ?p (init (world (init ?W)))) = Inr ''main''"
    and de': "fst (getDefaultBranch sim_git ?p (init (world (init ?W')))) = Inr ''main''"
    and de2: "fst (getDefaultBranch sim_git ?p (init ?W')) = Inr ''main''"
    by (simp_all add: getDefaultBranch_def query_def sim_defs servicePathOf_def feature_repo_def
        trim_def is_space_def)
  have ah: "git_ahead sim_git ?p ''main'' (world (init ?W)) = Inr 1"
    and ah': "git_ahead sim_git ?p ''main'' (world (init ?W')) = Inr 1"
    and ah2: "git_ahead sim_git ?p ''main'' ?W' = Inr 1"
    and pu: "git_push sim_git ?p True ''feature/login'' (world (init ?W)) = (None, ?W)"
    and pu': "git_push sim_git ?p True ''feature/login'' (world (init ?W')) = (None, ?W')"
    and pu2: "git_push sim_git ?p True ''feature/login'' ?W' = (None, ?W')"
    by (simp_all add: sim_defs servicePathOf_def feature_repo_def)
  have none: "gh_pr_list_head sim_git ?p ''feature/login'' ?W = Inr []"
    by (simp add: sim_defs host_defs)
  have made: "gh_pr_create sim_git ?p (createArgs ''api'' ''feature/login'' ''main'' False) ?W
                = (Inr ''https://github.com/org/api/pull/7'', ?W')"
    by (simp add: sim_defs host_defs servicePathOf_def feature_repo_def)
  have shape: "''https://github.com/org/api/pull/7'' = [] @ ''https://'' @ ''github.com/org/api/pull/7'' @ []
      \<and> CHR ''h'' \<notin> set [] \<and> ''github.com/org/api/pull/7'' \<noteq> []
      \<and> (\<forall>c \<in> set ''github.com/org/api/pull/7''. \<not> is_space c)
      \<and> ([] = [] \<or> is_space (hd []))"
    by (simp add: is_space_def)
  have found: "gh_pr_list_head sim_git ?p ''feature/login'' ?W' = Inr (sim_pr_json ''7'')"
    and nonempty: "sim_pr_json ''7'' \<noteq> []"
    and parsed: "json_parse sim_git (sim_pr_json ''7'') = Some ?pr"
    and url: "pr_url ?pr = Some (''https://'' @ ''github.com/org/api/pull/7'')"
    by (simp_all add: sim_defs host_defs is_digit_def Let_def)
  have num: "match_number ''https://github.com/org/api/pull/7'' = None"
    by (simp add: is_digit_def)
  have B: "fst (createLinkPR sim_git ''api'' False (init ?W))
         = Inr \<lparr>pr_number = None, pr_url = Some ''https://github.com/org/api/pull/7''\<rparr>
       \<and> fst (createLinkPR sim_git ''api'' False (snd (createLinkPR sim_git ''api'' False (init ?W))))
         = Inr ?pr
       \<and> world (snd (createLinkPR sim_git ''api'' False (snd (createLinkPR sim_git ''api'' False (init ?W)))))
         = ?W'
       \<and> filter mutating (trace (snd (createLinkPR sim_git ''api'' False
              (snd (createLinkPR sim_git ''api'' False (init ?W))))))
         = [GitPush ''services/api'' True ''feature/login'',
            GhPrCreate ''services/api'' (createArgs ''api'' ''feature/login'' ''main'' False),
            GitPush ''services/api'' True ''feature/login'']"
    using createLinkPR_twice [OF st cu nb de ne ah n1 pu st2 cu de2 ah2 n1 pu2,
        where draft = False and printed = "''https://github.com/org/api/pull/7''"
          and pre = "[]" and rest = "''github.com/org/api/pull/7''" and post = "[]"
          and ?stdout2.0 = "sim_pr_json ''7''" and ?pr2.0 = ?pr]
      none made shape found nonempty parsed url num
    by (simp add: init_def servicePathOf_def)
  have A: "fst (createLinkPR sim_git ''api'' False (init ?W')) = Inr ?pr
       \<and> fst (createLinkPR sim_git ''api'' False (snd (createLinkPR sim_git ''api'' False (init ?W'))))
         = Inr ?pr
       \<and> filter mutating (trace (snd (createLinkPR sim_git ''api'' False
              (snd (createLinkPR sim_git ''api'' False (init ?W'))))))
         = [GitPush ''services/api'' True ''feature/login'', GitPush ''services/api'' True ''feature/login'']"
    using createLinkPR_twice [OF st' cu nb de' ne ah' n1 pu' st2 cu de2 ah2 n1 pu2,
        where draft = False and stdout = "sim_pr_json ''7''" and pr = ?pr]
      found nonempty parsed
    by (simp add: init_def servicePathOf_def)
  from A B show ?thesis by simp
qed


end
